theory Spec2Isabelle
  imports Complex_Main
begin

section \<open>The tensor engine, as far as the LIF modules use it\<close>

text \<open>
  The modules of \<^verbatim>\<open>myelin/torch/module/lif.py\<close> are thin wrappers over a tensor
  engine. A tensor is modelled by what the modules can observe of it: its shape, its
  elements in row-major order, the device it lives on and its element type.

  An element is a finite number, an infinity or NaN, with the arithmetic of the
  floating-point formats on the infinities and NaN. On finite numbers the arithmetic
  is that of the real numbers: rounding, and overflow of a finite result to an
  infinity, are not modelled.

  Every raise of the engine is a value \<open>Inl e\<close> of the result type.
\<close>

datatype error = TypeError | RuntimeError | IndexError

datatype device = CPU | CUDA nat

datatype dtype = Float16 | Float32 | Float64

datatype elem = Fin real | PInf | NInf | NaN

definition is_finite :: "elem \<Rightarrow> bool" where
  "is_finite x = (case x of Fin a \<Rightarrow> True | PInf \<Rightarrow> False | NInf \<Rightarrow> False | NaN \<Rightarrow> False)"

text \<open>
  An infinity (the positive one when \<open>pos\<close>) times an element: zero gives NaN, a
  negative factor flips the sign.
\<close>

fun inf_times :: "bool \<Rightarrow> elem \<Rightarrow> elem" where
  "inf_times pos (Fin b) = (if b = 0 then NaN else if (0 < b) = pos then PInf else NInf)"
| "inf_times pos PInf = (if pos then PInf else NInf)"
| "inf_times pos NInf = (if pos then NInf else PInf)"
| "inf_times pos NaN = NaN"

instantiation elem :: "{zero, one, plus, uminus, minus, times, inverse, ord}"
begin

definition zero_elem :: elem where
  "zero_elem = Fin 0"

definition one_elem :: elem where
  "one_elem = Fin 1"

fun plus_elem :: "elem \<Rightarrow> elem \<Rightarrow> elem" where
  "plus_elem (Fin a) (Fin b) = Fin (a + b)"
| "plus_elem NaN y = NaN"
| "plus_elem x NaN = NaN"
| "plus_elem PInf NInf = NaN"
| "plus_elem NInf PInf = NaN"
| "plus_elem PInf y = PInf"
| "plus_elem x PInf = PInf"
| "plus_elem NInf y = NInf"
| "plus_elem x NInf = NInf"

fun uminus_elem :: "elem \<Rightarrow> elem" where
  "uminus_elem (Fin a) = Fin (- a)"
| "uminus_elem PInf = NInf"
| "uminus_elem NInf = PInf"
| "uminus_elem NaN = NaN"

definition minus_elem :: "elem \<Rightarrow> elem \<Rightarrow> elem" where
  "minus_elem x y = x + (- y)"

fun times_elem :: "elem \<Rightarrow> elem \<Rightarrow> elem" where
  "times_elem (Fin a) (Fin b) = Fin (a * b)"
| "times_elem NaN y = NaN"
| "times_elem x NaN = NaN"
| "times_elem PInf y = inf_times True y"
| "times_elem NInf y = inf_times False y"
| "times_elem x PInf = inf_times True x"
| "times_elem x NInf = inf_times False x"

fun divide_elem :: "elem \<Rightarrow> elem \<Rightarrow> elem" where
  "divide_elem (Fin a) (Fin b) =
     (if b = 0 then (if a = 0 then NaN else if 0 < a then PInf else NInf) else Fin (a / b))"
| "divide_elem NaN y = NaN"
| "divide_elem x NaN = NaN"
| "divide_elem (Fin a) y = Fin 0"
| "divide_elem PInf (Fin b) = (if 0 \<le> b then PInf else NInf)"
| "divide_elem NInf (Fin b) = (if 0 \<le> b then NInf else PInf)"
| "divide_elem x y = NaN"

definition inverse_elem :: "elem \<Rightarrow> elem" where
  "inverse_elem x = divide (Fin 1) x"

fun less_eq_elem :: "elem \<Rightarrow> elem \<Rightarrow> bool" where
  "less_eq_elem (Fin a) (Fin b) = (a \<le> b)"
| "less_eq_elem NaN y = False"
| "less_eq_elem x NaN = False"
| "less_eq_elem NInf y = True"
| "less_eq_elem x PInf = True"
| "less_eq_elem x y = False"

definition less_elem :: "elem \<Rightarrow> elem \<Rightarrow> bool" where
  "less_elem x y = (x \<le> y \<and> \<not> y \<le> (x::elem))"

instance ..

end

record tensor =
  shape :: "nat list"
  data :: "elem list"
  device :: device
  dtype :: dtype

text \<open>
  A tensor of the engine always holds as many elements as its shape says.
\<close>

definition wf_tensor :: "tensor \<Rightarrow> bool" where
  "wf_tensor t = (length (data t) = prod_list (shape t))"

text \<open>
  \<^verbatim>\<open>torch.zeros(*sizes, device=..., dtype=...)\<close>. The sizes are Python integers. The
  engine raises a TypeError when no size is given at all and a RuntimeError when a
  size is negative.
\<close>

definition torch_zeros :: "int list \<Rightarrow> device \<Rightarrow> dtype \<Rightarrow> error + tensor" where
  "torch_zeros sizes dev dt =
     (if sizes = [] then Inl TypeError
      else if list_ex (\<lambda>n. n < 0) sizes then Inl RuntimeError
      else Inr \<lparr>shape = map nat sizes,
                data = replicate (prod_list (map nat sizes)) 0,
                device = dev, dtype = dt\<rparr>)"

text \<open>
  Broadcasting of two shapes: aligned at the last dimension, two sizes agree when
  they are equal or one of them is 1, and a missing dimension counts as 1. The
  function works on the reversed shapes.
\<close>

fun broadcast_rev :: "nat list \<Rightarrow> nat list \<Rightarrow> nat list option" where
  "broadcast_rev [] ys = Some ys"
| "broadcast_rev xs [] = Some xs"
| "broadcast_rev (x # xs) (y # ys) =
     (if x = y then map_option ((#) x) (broadcast_rev xs ys)
      else if y = 1 then map_option ((#) x) (broadcast_rev xs ys)
      else if x = 1 then map_option ((#) y) (broadcast_rev xs ys)
      else None)"

definition broadcast_shapes :: "nat list \<Rightarrow> nat list \<Rightarrow> nat list option" where
  "broadcast_shapes a b = map_option rev (broadcast_rev (rev a) (rev b))"

text \<open>
  The position in a tensor of shape \<open>s\<close> that element \<open>k\<close> of its broadcast to the
  shape \<open>t\<close> is read from (both shapes reversed): along a dimension of size 1 the
  position stays 0.
\<close>

fun source_index_rev :: "nat list \<Rightarrow> nat list \<Rightarrow> nat \<Rightarrow> nat" where
  "source_index_rev (t # ts) (s # ss) k =
     (if s = 1 then 0 else k mod t) + s * source_index_rev ts ss (k div t)"
| "source_index_rev ts ss k = 0"

text \<open>
  The elements of a tensor broadcast to the shape \<open>s\<close>; a tensor that has this shape
  already is taken as it is.
\<close>

definition broadcast_data :: "nat list \<Rightarrow> tensor \<Rightarrow> elem list" where
  "broadcast_data s t =
     (if shape t = s then data t
      else map (\<lambda>k. data t ! source_index_rev (rev s) (rev (shape t)) k) [0..<prod_list s])"

text \<open>
  Type promotion among the floating types: the wider type wins, and a tensor without
  dimensions gives way to one with dimensions.
\<close>

fun dtype_rank :: "dtype \<Rightarrow> nat" where
  "dtype_rank Float16 = 0"
| "dtype_rank Float32 = 1"
| "dtype_rank Float64 = 2"

definition promote :: "dtype \<Rightarrow> dtype \<Rightarrow> dtype" where
  "promote a b = (if dtype_rank a \<le> dtype_rank b then b else a)"

definition result_dtype :: "tensor \<Rightarrow> tensor \<Rightarrow> dtype" where
  "result_dtype a b =
     (if shape a = [] \<and> shape b \<noteq> [] then dtype b
      else if shape b = [] \<and> shape a \<noteq> [] then dtype a
      else promote (dtype a) (dtype b))"

text \<open>
  The operands of an operation live on one device; a tensor without dimensions on the
  CPU combines with a tensor on any device.
\<close>

definition result_device :: "tensor \<Rightarrow> tensor \<Rightarrow> error + device" where
  "result_device a b =
     (if device a = device b then Inr (device a)
      else if shape a = [] \<and> device a = CPU then Inr (device b)
      else if shape b = [] \<and> device b = CPU then Inr (device a)
      else Inl RuntimeError)"

text \<open>
  An operation with a Python scalar, applied to every element; shape, device and
  dtype stay.
\<close>

definition tensor_map :: "(elem \<Rightarrow> elem) \<Rightarrow> tensor \<Rightarrow> tensor" where
  "tensor_map f a = a\<lparr>data := map f (data a)\<rparr>"

text \<open>
  An element-wise operation on two tensors, with broadcasting. The engine raises when
  the shapes do not broadcast or the devices do not combine.
\<close>

definition tensor_zip :: "(elem \<Rightarrow> elem \<Rightarrow> elem) \<Rightarrow> tensor \<Rightarrow> tensor \<Rightarrow> error + tensor" where
  "tensor_zip f a b =
     (case broadcast_shapes (shape a) (shape b) of
        None \<Rightarrow> Inl RuntimeError
      | Some s \<Rightarrow>
          (case result_device a b of
             Inl e \<Rightarrow> Inl e
           | Inr dev \<Rightarrow>
               Inr \<lparr>shape = s, data = map2 f (broadcast_data s a) (broadcast_data s b),
                    device = dev, dtype = result_dtype a b\<rparr>))"

text \<open>
  \<^verbatim>\<open>x @ w.T\<close> for a weight matrix \<^verbatim>\<open>w\<close> of shape \<^verbatim>\<open>[h, n]\<close> and an input whose
  last dimension is \<^verbatim>\<open>n\<close>: every row of the input is multiplied with every row of
  the weights. Input and weights are on one device and of one dtype.
\<close>

definition rows :: "nat \<Rightarrow> nat \<Rightarrow> elem list \<Rightarrow> elem list list" where
  "rows m n xs = map (\<lambda>r. take n (drop (r * n) xs)) [0..<m]"

definition dot :: "elem list \<Rightarrow> elem list \<Rightarrow> elem" where
  "dot xs ys = foldl (+) 0 (map2 (*) xs ys)"

definition linear :: "tensor \<Rightarrow> tensor \<Rightarrow> error + tensor" where
  "linear x w =
     (case shape w of
        [h, n] \<Rightarrow>
          (if shape x = [] then Inl RuntimeError
           else if last (shape x) \<noteq> n then Inl RuntimeError
           else if device x \<noteq> device w then Inl RuntimeError
           else if dtype x \<noteq> dtype w then Inl RuntimeError
           else Inr \<lparr>shape = butlast (shape x) @ [h],
                     data = concat (map (\<lambda>r. map (dot r) (rows h n (data w)))
                                        (rows (prod_list (butlast (shape x))) n (data x))),
                     device = device x, dtype = dtype x\<rparr>)
      | _ \<Rightarrow> Inl RuntimeError)"

text \<open>
  \<^verbatim>\<open>input.unbind(0)\<close>: the slices along the first dimension, in order. A tensor
  without dimensions has none and the engine raises an IndexError.
\<close>

definition unbind0 :: "tensor \<Rightarrow> error + tensor list" where
  "unbind0 t =
     (case shape t of
        [] \<Rightarrow> Inl IndexError
      | d # rest \<Rightarrow>
          Inr (map (\<lambda>k. \<lparr>shape = rest,
                          data = take (prod_list rest) (drop (k * prod_list rest) (data t)),
                          device = device t, dtype = dtype t\<rparr>) [0..<d]))"

text \<open>
  \<^verbatim>\<open>torch.stack(outputs)\<close>: a new first dimension over tensors of one shape on one
  device. The engine raises on the empty list and on tensors that differ in shape.
\<close>

definition torch_stack :: "tensor list \<Rightarrow> error + tensor" where
  "torch_stack ts =
     (case ts of
        [] \<Rightarrow> Inl RuntimeError
      | t # rest \<Rightarrow>
          (if list_all (\<lambda>u. shape u = shape t \<and> device u = device t) rest
           then Inr \<lparr>shape = length ts # shape t, data = concat (map data ts),
                     device = device t, dtype = foldl promote (dtype t) (map dtype rest)\<rparr>
           else Inl RuntimeError))"

text \<open>
  \<^verbatim>\<open>buf[ts, :, :] = val\<close>: an integer index and two full slices. The engine raises
  an IndexError when \<^verbatim>\<open>buf\<close> has fewer than three dimensions (too many indices) or
  \<^verbatim>\<open>ts\<close> is out of range, and a RuntimeError when the value does not broadcast to
  the slice. The value is copied into the slice, converted to the buffer's device and
  dtype (the rounding of that conversion is not modelled).
\<close>

definition setitem_ts :: "tensor \<Rightarrow> nat \<Rightarrow> tensor \<Rightarrow> error + tensor" where
  "setitem_ts buf ts val =
     (case shape buf of
        d # r1 # r2 # rest \<Rightarrow>
          (if d \<le> ts then Inl IndexError
           else if broadcast_shapes (r1 # r2 # rest) (shape val) = Some (r1 # r2 # rest)
           then Inr (buf\<lparr>data := take (ts * prod_list (r1 # r2 # rest)) (data buf)
                                  @ broadcast_data (r1 # r2 # rest) val
                                  @ drop (Suc ts * prod_list (r1 # r2 # rest)) (data buf)\<rparr>)
           else Inl RuntimeError)
      | _ \<Rightarrow> Inl IndexError)"

text \<open>
  \<^verbatim>\<open>torch.randn(*sizes)\<close>. The generator of the engine is the sequence of the
  standard-normal draws it will hand out next, finite numbers; a call takes as many
  as the tensor has elements and leaves the rest.
\<close>

type_synonym generator = "nat \<Rightarrow> real"

definition torch_randn :: "int list \<Rightarrow> generator \<Rightarrow> (error + tensor) \<times> generator" where
  "torch_randn sizes g =
     (if sizes = [] then (Inl TypeError, g)
      else if list_ex (\<lambda>n. n < 0) sizes then (Inl RuntimeError, g)
      else (Inr \<lparr>shape = map nat sizes,
                 data = map (\<lambda>k. Fin (g k)) [0..<prod_list (map nat sizes)],
                 device = CPU, dtype = Float32\<rparr>,
            (\<lambda>k. g (k + prod_list (map nat sizes)))))"

text \<open>
  Sequencing of calls that may raise: the first raise ends the computation.
\<close>

definition and_then :: "error + 'a \<Rightarrow> ('a \<Rightarrow> error + 'b) \<Rightarrow> error + 'b" where
  "and_then m f = (case m of Inl e \<Rightarrow> Inl e | Inr x \<Rightarrow> f x)"

section \<open>The state and parameter records\<close>

text \<open>
  \<^verbatim>\<open>LIFParameters\<close>, \<^verbatim>\<open>LIFState\<close> and \<^verbatim>\<open>LIFFeedForwardState\<close> are imported by the
  module from \<^verbatim>\<open>..functional.lif\<close>. A parameter is a numeric scalar or a tensor, as
  the spec has it. The fields \<^verbatim>\<open>z\<close>, \<^verbatim>\<open>v\<close>, \<^verbatim>\<open>i\<close> of the states carry a suffix
  here, since a record field is a constant of the theory.
\<close>

datatype param = Scalar elem | Tens tensor

record LIFParameters =
  tau_syn_inv :: param
  tau_mem_inv :: param
  v_leak :: param
  v_th :: param
  v_reset :: param

record LIFState =
  z_s :: tensor
  v_s :: tensor
  i_s :: tensor

record LIFFeedForwardState =
  v_ffs :: tensor
  i_ffs :: tensor

text \<open>
  The Python float \<^verbatim>\<open>dt\<close> times a parameter, and an operation of a parameter (the
  first argument of \<open>f\<close>) with a tensor: with a scalar it is applied to every element,
  with a tensor it broadcasts.
\<close>

definition param_scale :: "elem \<Rightarrow> param \<Rightarrow> param" where
  "param_scale c prm = (case prm of Scalar a \<Rightarrow> Scalar (c * a) | Tens t \<Rightarrow> Tens (tensor_map ((*) c) t))"

definition param_zip :: "(elem \<Rightarrow> elem \<Rightarrow> elem) \<Rightarrow> param \<Rightarrow> tensor \<Rightarrow> error + tensor" where
  "param_zip f prm t = (case prm of Scalar a \<Rightarrow> Inr (tensor_map (f a) t) | Tens u \<Rightarrow> tensor_zip f u t)"

section \<open>The step functions of the functional layer\<close>

text \<open>
  \<^verbatim>\<open>lif_step\<close>, \<^verbatim>\<open>lif_feed_forward_step\<close> and \<^verbatim>\<open>lif_current_encoder\<close> live in
  \<^verbatim>\<open>myelin/torch/functional/lif.py\<close>, which is not among the sources. They are
  written here from sections 4.1 to 4.3 of the spec, one definition per numbered step,
  with the arguments the module passes them.
\<close>

text \<open>
  Modelled from the spec: the spike nonlinearity of \<^verbatim>\<open>functional/lif.py\<close>,
  1 where the new potential is at least the threshold, else 0. A comparison with NaN
  is false.
\<close>

definition heaviside :: "elem \<Rightarrow> elem" where
  "heaviside x = (if 0 \<le> x then 1 else 0)"

text \<open>
  Modelled from the spec: step 1 of \<^verbatim>\<open>lif_step\<close> (section 4.1), the synaptic input
  \<^verbatim>\<open>input_tensor @ input_weights^T + prior_spike @ recurrent_weights^T\<close>.
\<close>

definition lif_input_current :: "tensor \<Rightarrow> tensor \<Rightarrow> tensor \<Rightarrow> tensor \<Rightarrow> error + tensor" where
  "lif_input_current input z_old w_in w_rec =
     and_then (linear input w_in) (\<lambda>a.
     and_then (linear z_old w_rec) (\<lambda>b.
     tensor_zip (+) a b))"

text \<open>
  Modelled from the spec: step 2 of section 4.1,
  \<^verbatim>\<open>i_new = i + dt * tau_syn_inv * (-i + input_current)\<close>.
\<close>

definition lif_current_update :: "LIFParameters \<Rightarrow> elem \<Rightarrow> tensor \<Rightarrow> tensor \<Rightarrow> error + tensor" where
  "lif_current_update p dt i_old input_current =
     and_then (tensor_zip (+) (tensor_map uminus i_old) input_current) (\<lambda>a.
     and_then (param_zip (*) (param_scale dt (tau_syn_inv p)) a) (\<lambda>b.
     tensor_zip (+) i_old b))"

text \<open>
  Modelled from the spec: step 3 of section 4.1,
  \<^verbatim>\<open>v_new = v + dt * tau_mem_inv * ((v_leak - v) + i_new)\<close>; section 4.3 uses the same
  update with the input current in the place of \<^verbatim>\<open>i_new\<close>.
\<close>

definition lif_potential_update :: "LIFParameters \<Rightarrow> elem \<Rightarrow> tensor \<Rightarrow> tensor \<Rightarrow> error + tensor" where
  "lif_potential_update p dt v_old i_new =
     and_then (param_zip (-) (v_leak p) v_old) (\<lambda>a.
     and_then (tensor_zip (+) a i_new) (\<lambda>b.
     and_then (param_zip (*) (param_scale dt (tau_mem_inv p)) b) (\<lambda>c.
     tensor_zip (+) v_old c)))"

text \<open>
  Modelled from the spec: step 4 of section 4.1, \<^verbatim>\<open>z_new = heaviside(v_new - v_th)\<close>.
\<close>

definition lif_spike :: "LIFParameters \<Rightarrow> tensor \<Rightarrow> error + tensor" where
  "lif_spike p v_new =
     and_then (param_zip (\<lambda>th v. v - th) (v_th p) v_new) (\<lambda>d.
     Inr (tensor_map heaviside d))"

text \<open>
  Modelled from the spec: step 5 of section 4.1,
  \<^verbatim>\<open>v_new = (1 - z_new) * v_new + z_new * v_reset\<close>.
\<close>

definition lif_reset :: "LIFParameters \<Rightarrow> tensor \<Rightarrow> tensor \<Rightarrow> error + tensor" where
  "lif_reset p z_new v_new =
     and_then (tensor_zip (*) (tensor_map (\<lambda>z. 1 - z) z_new) v_new) (\<lambda>a.
     and_then (param_zip (\<lambda>r z. z * r) (v_reset p) z_new) (\<lambda>b.
     tensor_zip (+) a b))"

text \<open>
  Modelled from the spec: the integration part of \<^verbatim>\<open>lif_step\<close> (steps 1 to 3 of
  section 4.1). It returns the new current and the potential before the reset.
\<close>

definition lif_integrate ::
  "tensor \<Rightarrow> LIFState \<Rightarrow> tensor \<Rightarrow> tensor \<Rightarrow> LIFParameters \<Rightarrow> elem \<Rightarrow> error + tensor \<times> tensor" where
  "lif_integrate input state w_in w_rec p dt =
     and_then (lif_input_current input (z_s state) w_in w_rec) (\<lambda>input_current.
     and_then (lif_current_update p dt (i_s state) input_current) (\<lambda>i_new.
     and_then (lif_potential_update p dt (v_s state) i_new) (\<lambda>v_new.
     Inr (i_new, v_new))))"

text \<open>
  Modelled from the spec: the spike and reset part shared by the three step functions
  (steps 4 and 5 of section 4.1). It returns the spikes and the potential after the
  reset.
\<close>

definition lif_spike_reset :: "LIFParameters \<Rightarrow> tensor \<Rightarrow> error + tensor \<times> tensor" where
  "lif_spike_reset p v_new =
     and_then (lif_spike p v_new) (\<lambda>z_new.
     and_then (lif_reset p z_new v_new) (\<lambda>v_out.
     Inr (z_new, v_out)))"

text \<open>
  Modelled from the spec: \<^verbatim>\<open>lif_step\<close> of \<^verbatim>\<open>functional/lif.py\<close> (section 4.1). It
  returns \<^verbatim>\<open>z_new\<close> as the output and \<^verbatim>\<open>(z_new, v_new, i_new)\<close> as the carried state.
\<close>

definition lif_step ::
  "tensor \<Rightarrow> LIFState \<Rightarrow> tensor \<Rightarrow> tensor \<Rightarrow> LIFParameters \<Rightarrow> elem \<Rightarrow> error + tensor \<times> LIFState" where
  "lif_step input state w_in w_rec p dt =
     and_then (lif_integrate input state w_in w_rec p dt) (\<lambda>(i_new, v_new).
     and_then (lif_spike_reset p v_new) (\<lambda>(z_new, v_out).
     Inr (z_new, \<lparr>z_s = z_new, v_s = v_out, i_s = i_new\<rparr>)))"

text \<open>
  Modelled from the spec: \<^verbatim>\<open>lif_feed_forward_step\<close> of \<^verbatim>\<open>functional/lif.py\<close>
  (section 4.2): steps 2 to 5 with the input current supplied directly.
\<close>

definition lif_feed_forward_step ::
  "tensor \<Rightarrow> LIFFeedForwardState \<Rightarrow> LIFParameters \<Rightarrow> elem \<Rightarrow> error + tensor \<times> LIFFeedForwardState" where
  "lif_feed_forward_step input state p dt =
     and_then (lif_current_update p dt (i_ffs state) input) (\<lambda>i_new.
     and_then (lif_potential_update p dt (v_ffs state) i_new) (\<lambda>v_new.
     and_then (lif_spike_reset p v_new) (\<lambda>(z_new, v_out).
     Inr (z_new, \<lparr>v_ffs = v_out, i_ffs = i_new\<rparr>))))"

text \<open>
  Modelled from the spec: \<^verbatim>\<open>lif_current_encoder\<close> of \<^verbatim>\<open>functional/lif.py\<close>
  (section 4.3), with the keyword arguments of its call in the module,
  \<^verbatim>\<open>input_current\<close>, \<^verbatim>\<open>v\<close>, \<^verbatim>\<open>p\<close> and \<^verbatim>\<open>dt\<close>. It returns the pair \<^verbatim>\<open>(z, v)\<close>.
\<close>

definition lif_current_encoder ::
  "tensor \<Rightarrow> tensor \<Rightarrow> LIFParameters \<Rightarrow> elem \<Rightarrow> error + tensor \<times> tensor" where
  "lif_current_encoder input_current v_old p dt =
     and_then (lif_potential_update p dt v_old input_current) (\<lambda>v_new.
     lif_spike_reset p v_new)"

section \<open>LIFCell\<close>

text \<open>
  The fields \<^verbatim>\<open>self.p\<close> and \<^verbatim>\<open>self.dt\<close> are \<open>p_cell\<close> and \<open>dt_cell\<close>.
  \<^verbatim>\<open>hidden_size\<close> is stored as the constructor received it, a Python integer.
\<close>

record LIFCell =
  input_weights :: tensor
  recurrent_weights :: tensor
  hidden_size :: int
  p_cell :: LIFParameters
  dt_cell :: elem

text \<open>
  \<^verbatim>\<open>LIFCell.initial_state(batch_size, device, dtype)\<close>: three calls of
  \<^verbatim>\<open>torch.zeros(batch_size, self.hidden_size, device=device, dtype=dtype)\<close>, in the
  order \<^verbatim>\<open>z\<close>, \<^verbatim>\<open>v\<close>, \<^verbatim>\<open>i\<close>.
\<close>

definition LIFCell_initial_state :: "LIFCell \<Rightarrow> int \<Rightarrow> device \<Rightarrow> dtype \<Rightarrow> error + LIFState" where
  "LIFCell_initial_state self batch_size dev dt =
     (case torch_zeros [batch_size, hidden_size self] dev dt of
        Inl e \<Rightarrow> Inl e
      | Inr z0 \<Rightarrow>
          (case torch_zeros [batch_size, hidden_size self] dev dt of
             Inl e \<Rightarrow> Inl e
           | Inr v0 \<Rightarrow>
               (case torch_zeros [batch_size, hidden_size self] dev dt of
                  Inl e \<Rightarrow> Inl e
                | Inr i0 \<Rightarrow> Inr \<lparr>z_s = z0, v_s = v0, i_s = i0\<rparr>)))"

text \<open>
  \<^verbatim>\<open>LIFCell.__init__(input_size, hidden_size, p, dt)\<close>. The two weight matrices
  are drawn with \<^verbatim>\<open>torch.randn\<close>, the input weights first, and divided by
  \<^verbatim>\<open>np.sqrt\<close> of the input size and of the hidden size. The generator is passed in
  and handed back.
\<close>

definition LIFCell_init ::
  "int \<Rightarrow> int \<Rightarrow> LIFParameters \<Rightarrow> elem \<Rightarrow> generator \<Rightarrow> (error + LIFCell) \<times> generator" where
  "LIFCell_init input_size hidden_sz p dt g =
     (case torch_randn [hidden_sz, input_size] g of
        (Inl e, g1) \<Rightarrow> (Inl e, g1)
      | (Inr a, g1) \<Rightarrow>
          (case torch_randn [hidden_sz, hidden_sz] g1 of
             (Inl e, g2) \<Rightarrow> (Inl e, g2)
           | (Inr b, g2) \<Rightarrow>
               (Inr \<lparr>input_weights = tensor_map (\<lambda>x. x / Fin (sqrt (of_int input_size))) a,
                     recurrent_weights = tensor_map (\<lambda>x. x / Fin (sqrt (of_int hidden_sz))) b,
                     hidden_size = hidden_sz, p_cell = p, dt_cell = dt\<rparr>, g2)))"

text \<open>
  \<^verbatim>\<open>torch.nn.Module.parameters()\<close> of a cell: the attributes its constructor wrapped
  in \<^verbatim>\<open>torch.nn.Parameter\<close>.
\<close>

definition LIFCell_parameters :: "LIFCell \<Rightarrow> tensor list" where
  "LIFCell_parameters self = [input_weights self, recurrent_weights self]"

text \<open>
  A \<^verbatim>\<open>forward\<close> method is modelled with the module it is called on: it returns what
  the call returns or raises, and the module as the call leaves it.

  \<^verbatim>\<open>LIFCell.forward(input, state)\<close> passes its arguments and the fields of the cell
  to \<^verbatim>\<open>lif_step\<close>.
\<close>

definition LIFCell_forward ::
  "LIFCell \<Rightarrow> tensor \<Rightarrow> LIFState \<Rightarrow> (error + tensor \<times> LIFState) \<times> LIFCell" where
  "LIFCell_forward self input state =
     (lif_step input state (input_weights self) (recurrent_weights self)
        (p_cell self) (dt_cell self), self)"

section \<open>LIFLayer\<close>

text \<open>
  A layer owns one cell, of any class; \<open>call\<close> below is the \<^verbatim>\<open>forward\<close> of that
  class, in the form just described, so a cell that changes itself when called is
  covered.
\<close>

record 'c LIFLayer =
  cell :: 'c

text \<open>
  The loop of \<^verbatim>\<open>LIFLayer.forward\<close>:
  \<^verbatim>\<open>for i in range(len(inputs)): out, state = self.cell(inputs[i], state); outputs += [out]\<close>.
  A raise of the cell leaves the loop.
\<close>

function LIFLayer_loop ::
  "('c \<Rightarrow> tensor \<Rightarrow> 's \<Rightarrow> (error + tensor \<times> 's) \<times> 'c) \<Rightarrow> tensor list \<Rightarrow> nat \<Rightarrow>
   tensor list \<Rightarrow> 's \<Rightarrow> 'c LIFLayer \<Rightarrow> (error + tensor list \<times> 's) \<times> 'c LIFLayer" where
  "LIFLayer_loop call inputs i outputs state self =
     (if i < length inputs then
        (case call (cell self) (inputs ! i) state of
           (Inl e, c1) \<Rightarrow> (Inl e, self\<lparr>cell := c1\<rparr>)
         | (Inr (out, state1), c1) \<Rightarrow>
             LIFLayer_loop call inputs (Suc i) (outputs @ [out]) state1 (self\<lparr>cell := c1\<rparr>))
      else (Inr (outputs, state), self))"
  by pat_completeness auto
termination
  by (relation "measure (\<lambda>(call, inputs, i, outputs, state, self). length inputs - i)") auto

declare LIFLayer_loop.simps [simp del]

text \<open>
  \<^verbatim>\<open>LIFLayer.forward(input, state)\<close>: unbind along dimension 0, run the loop from
  the empty output list, stack the outputs.
\<close>

definition LIFLayer_forward ::
  "('c \<Rightarrow> tensor \<Rightarrow> 's \<Rightarrow> (error + tensor \<times> 's) \<times> 'c) \<Rightarrow> 'c LIFLayer \<Rightarrow> tensor \<Rightarrow> 's \<Rightarrow>
   (error + tensor \<times> 's) \<times> 'c LIFLayer" where
  "LIFLayer_forward call self input state =
     (case unbind0 input of
        Inl e \<Rightarrow> (Inl e, self)
      | Inr inputs \<Rightarrow>
          (case LIFLayer_loop call inputs 0 [] state self of
             (Inl e, self1) \<Rightarrow> (Inl e, self1)
           | (Inr (outputs, state1), self1) \<Rightarrow>
               (case torch_stack outputs of
                  Inl e \<Rightarrow> (Inl e, self1)
                | Inr stacked \<Rightarrow> (Inr (stacked, state1), self1))))"

text \<open>
  The unrolling by hand that the spec compares the layer with, written from its
  words: invoke the cell once per time step, in order, feed each call the state the
  previous call returned, and collect the outputs. This definition follows the spec,
  not the source.
\<close>

fun cell_by_hand ::
  "('c \<Rightarrow> tensor \<Rightarrow> 's \<Rightarrow> (error + tensor \<times> 's) \<times> 'c) \<Rightarrow> 'c \<Rightarrow> tensor list \<Rightarrow> 's \<Rightarrow>
   (error + tensor list \<times> 's) \<times> 'c" where
  "cell_by_hand call c [] state = (Inr ([], state), c)"
| "cell_by_hand call c (x # xs) state =
     (case call c x state of
        (Inl e, c1) \<Rightarrow> (Inl e, c1)
      | (Inr (out, state1), c1) \<Rightarrow>
          (case cell_by_hand call c1 xs state1 of
             (Inl e, c2) \<Rightarrow> (Inl e, c2)
           | (Inr (outs, state2), c2) \<Rightarrow> (Inr (out # outs, state2), c2)))"

definition unrolled_by_hand ::
  "('c \<Rightarrow> tensor \<Rightarrow> 's \<Rightarrow> (error + tensor \<times> 's) \<times> 'c) \<Rightarrow> 'c \<Rightarrow> tensor \<Rightarrow> 's \<Rightarrow>
   (error + tensor \<times> 's) \<times> 'c" where
  "unrolled_by_hand call c input state =
     (case unbind0 input of
        Inl e \<Rightarrow> (Inl e, c)
      | Inr inputs \<Rightarrow>
          (case cell_by_hand call c inputs state of
             (Inl e, c1) \<Rightarrow> (Inl e, c1)
           | (Inr (outs, state1), c1) \<Rightarrow>
               (case torch_stack outs of
                  Inl e \<Rightarrow> (Inl e, c1)
                | Inr stacked \<Rightarrow> (Inr (stacked, state1), c1))))"

section \<open>LIFFeedForwardCell\<close>

text \<open>
  The fields \<^verbatim>\<open>self.shape\<close>, \<^verbatim>\<open>self.p\<close> and \<^verbatim>\<open>self.dt\<close>; the shape is a tuple
  of Python integers, stored as given. The constructor wraps nothing in
  \<^verbatim>\<open>torch.nn.Parameter\<close>.
\<close>

record LIFFeedForwardCell =
  shape_ff :: "int list"
  p_ff :: LIFParameters
  dt_ff :: elem

definition LIFFeedForwardCell_init :: "int list \<Rightarrow> LIFParameters \<Rightarrow> elem \<Rightarrow> LIFFeedForwardCell" where
  "LIFFeedForwardCell_init shp p dt = \<lparr>shape_ff = shp, p_ff = p, dt_ff = dt\<rparr>"

definition LIFFeedForwardCell_parameters :: "LIFFeedForwardCell \<Rightarrow> tensor list" where
  "LIFFeedForwardCell_parameters self = []"

text \<open>
  \<^verbatim>\<open>LIFFeedForwardCell.initial_state(batch_size, device, dtype)\<close>: two calls of
  \<^verbatim>\<open>torch.zeros(batch_size, *self.shape, device=device, dtype=dtype)\<close>.
\<close>

definition LIFFeedForwardCell_initial_state ::
  "LIFFeedForwardCell \<Rightarrow> int \<Rightarrow> device \<Rightarrow> dtype \<Rightarrow> error + LIFFeedForwardState" where
  "LIFFeedForwardCell_initial_state self batch_size dev dt =
     (case torch_zeros (batch_size # shape_ff self) dev dt of
        Inl e \<Rightarrow> Inl e
      | Inr v0 \<Rightarrow>
          (case torch_zeros (batch_size # shape_ff self) dev dt of
             Inl e \<Rightarrow> Inl e
           | Inr i0 \<Rightarrow> Inr \<lparr>v_ffs = v0, i_ffs = i0\<rparr>))"

definition LIFFeedForwardCell_forward ::
  "LIFFeedForwardCell \<Rightarrow> tensor \<Rightarrow> LIFFeedForwardState \<Rightarrow>
   (error + tensor \<times> LIFFeedForwardState) \<times> LIFFeedForwardCell" where
  "LIFFeedForwardCell_forward self input state =
     (lif_feed_forward_step input state (p_ff self) (dt_ff self), self)"

section \<open>LIFConstantCurrentEncoder\<close>

text \<open>
  The fields \<^verbatim>\<open>self.seq_length\<close>, \<^verbatim>\<open>self.p\<close>, \<^verbatim>\<open>self.device\<close> and \<^verbatim>\<open>self.dt\<close>.
\<close>

record LIFConstantCurrentEncoder =
  seq_length :: int
  p_enc :: LIFParameters
  device_enc :: device
  dt_enc :: elem

text \<open>
  The loop of \<^verbatim>\<open>LIFConstantCurrentEncoder.forward\<close>, from the iteration \<^verbatim>\<open>ts\<close> on:
  \<^verbatim>\<open>z, v = lif_current_encoder(input_current=x, v=v, p=self.p, dt=self.dt)\<close>,
  \<^verbatim>\<open>voltages[ts, :, :] = v\<close>, \<^verbatim>\<open>spikes[ts, :, :] = z\<close>.
\<close>

function encoder_loop ::
  "LIFConstantCurrentEncoder \<Rightarrow> tensor \<Rightarrow> nat \<Rightarrow> tensor \<Rightarrow> tensor \<Rightarrow> tensor \<Rightarrow> tensor \<Rightarrow>
   (error + tensor \<times> tensor) \<times> LIFConstantCurrentEncoder" where
  "encoder_loop self x ts z_cur v_cur voltages spikes =
     (if int ts < seq_length self then
        (case lif_current_encoder x v_cur (p_enc self) (dt_enc self) of
           Inl e \<Rightarrow> (Inl e, self)
         | Inr (z_new, v_new) \<Rightarrow>
             (case setitem_ts voltages ts v_new of
                Inl e \<Rightarrow> (Inl e, self)
              | Inr voltages1 \<Rightarrow>
                  (case setitem_ts spikes ts z_new of
                     Inl e \<Rightarrow> (Inl e, self)
                   | Inr spikes1 \<Rightarrow>
                       encoder_loop self x (Suc ts) z_new v_new voltages1 spikes1)))
      else (Inr (voltages, spikes), self))"
  by pat_completeness auto
termination
  by (relation "measure (\<lambda>(self, x, ts, z_cur, v_cur, voltages, spikes). nat (seq_length self) - ts)")
    auto

declare encoder_loop.simps [simp del]

text \<open>
  \<^verbatim>\<open>LIFConstantCurrentEncoder.forward(x)\<close>: four calls of \<^verbatim>\<open>torch.zeros\<close> on
  \<^verbatim>\<open>self.device\<close>, of the default dtype, then the loop from \<^verbatim>\<open>ts = 0\<close>.
\<close>

definition LIFConstantCurrentEncoder_forward ::
  "LIFConstantCurrentEncoder \<Rightarrow> tensor \<Rightarrow>
   (error + tensor \<times> tensor) \<times> LIFConstantCurrentEncoder" where
  "LIFConstantCurrentEncoder_forward self x =
     (case torch_zeros (map int (shape x)) (device_enc self) Float32 of
        Inl e \<Rightarrow> (Inl e, self)
      | Inr v0 \<Rightarrow>
          (case torch_zeros (map int (shape x)) (device_enc self) Float32 of
             Inl e \<Rightarrow> (Inl e, self)
           | Inr z0 \<Rightarrow>
               (case torch_zeros (seq_length self # map int (shape x)) (device_enc self) Float32 of
                  Inl e \<Rightarrow> (Inl e, self)
                | Inr voltages \<Rightarrow>
                    (case torch_zeros (seq_length self # map int (shape x)) (device_enc self)
                            Float32 of
                       Inl e \<Rightarrow> (Inl e, self)
                     | Inr spikes \<Rightarrow> encoder_loop self x 0 z0 v0 voltages spikes))))"

section \<open>Notions the statements use\<close>

text \<open>
  The value of a parameter for element \<open>k\<close> of a tensor of shape \<open>s\<close>, and the
  parameters the spec names: a numeric scalar, or a tensor that broadcasts into the
  shape of the state (a per-neuron tensor).
\<close>

definition param_at :: "nat list \<Rightarrow> param \<Rightarrow> nat \<Rightarrow> elem" where
  "param_at s prm k = (case prm of Scalar a \<Rightarrow> a | Tens t \<Rightarrow> broadcast_data s t ! k)"

definition param_fits :: "nat list \<Rightarrow> param \<Rightarrow> bool" where
  "param_fits s prm = (case prm of Scalar a \<Rightarrow> True | Tens t \<Rightarrow> broadcast_shapes (shape t) s = Some s)"

text \<open>
  The reset of step 5, for a potential \<open>v_new\<close> before the reset, the spikes \<open>z_out\<close>
  and the potential \<open>v_out\<close> of the returned state: spikes and potential have the
  shape of \<open>v_new\<close>; every neuron has spike value 1 or 0; a neuron with spike value 1
  and a finite \<open>v_new\<close> has the potential \<open>v_reset\<close>; a neuron with spike value 0
  keeps its \<open>v_new\<close>, when \<open>v_reset\<close> is finite.
\<close>

definition reset_applied :: "LIFParameters \<Rightarrow> tensor \<Rightarrow> tensor \<Rightarrow> tensor \<Rightarrow> bool" where
  "reset_applied p v_new z_out v_out =
     (shape z_out = shape v_new \<and> shape v_out = shape v_new \<and>
      length (data v_out) \<le> length (data z_out) \<and>
      length (data v_out) \<le> length (data v_new) \<and>
      (\<forall>k<length (data v_out).
         (data z_out ! k = 1 \<or> data z_out ! k = 0) \<and>
         (data z_out ! k = 1 \<and> is_finite (data v_new ! k) \<longrightarrow>
            data v_out ! k = param_at (shape v_new) (v_reset p) k) \<and>
         (data z_out ! k = 0 \<and> is_finite (param_at (shape v_new) (v_reset p) k) \<longrightarrow>
            data v_out ! k = data v_new ! k)))"

text \<open>
  A tensor of a given shape, device and dtype that holds as many elements as its
  shape says; a \<^verbatim>\<open>LIFState\<close> of three such tensors; and a parameter that combines
  with such tensors: a scalar, or a tensor that broadcasts into the shape, on the same
  device or without dimensions on the CPU, and without dimensions or of the same
  dtype.
\<close>

definition has_form :: "nat list \<Rightarrow> device \<Rightarrow> dtype \<Rightarrow> tensor \<Rightarrow> bool" where
  "has_form s dev dt t = (shape t = s \<and> device t = dev \<and> dtype t = dt \<and> wf_tensor t)"

definition state_has_form :: "nat list \<Rightarrow> device \<Rightarrow> dtype \<Rightarrow> LIFState \<Rightarrow> bool" where
  "state_has_form s dev dt state =
     (has_form s dev dt (z_s state) \<and> has_form s dev dt (v_s state) \<and>
      has_form s dev dt (i_s state))"

definition param_ok :: "nat list \<Rightarrow> device \<Rightarrow> dtype \<Rightarrow> param \<Rightarrow> bool" where
  "param_ok s dev dt prm =
     (case prm of
        Scalar a \<Rightarrow> True
      | Tens t \<Rightarrow>
          broadcast_shapes (shape t) s = Some s \<and> wf_tensor t \<and>
          (device t = dev \<or> (shape t = [] \<and> device t = CPU)) \<and>
          ((shape t = [] \<and> s \<noteq> []) \<or> dtype t = dt))"

definition params_ok :: "nat list \<Rightarrow> device \<Rightarrow> dtype \<Rightarrow> LIFParameters \<Rightarrow> bool" where
  "params_ok s dev dt p =
     (param_ok s dev dt (tau_syn_inv p) \<and> param_ok s dev dt (tau_mem_inv p) \<and>
      param_ok s dev dt (v_leak p) \<and> param_ok s dev dt (v_th p) \<and>
      param_ok s dev dt (v_reset p))"

section \<open>Example values\<close>

text \<open>
  Concrete parameters, tensors and modules, at which the theorems below are
  instantiated and evaluated.
\<close>

definition ex_params :: LIFParameters where
  "ex_params = \<lparr>tau_syn_inv = Scalar (Fin 50), tau_mem_inv = Scalar (Fin 50),
                v_leak = Scalar (Fin 0), v_th = Scalar (Fin 1), v_reset = Scalar (Fin (-1))\<rparr>"

definition ex_tensor :: "nat list \<Rightarrow> real list \<Rightarrow> tensor" where
  "ex_tensor s xs = \<lparr>shape = s, data = map Fin xs, device = CPU, dtype = Float32\<rparr>"

definition ex_cell :: LIFCell where
  "ex_cell = \<lparr>input_weights = ex_tensor [2, 1] [6, 1],
              recurrent_weights = ex_tensor [2, 2] [0, 1/2, 1/2, 0],
              hidden_size = 2, p_cell = ex_params, dt_cell = Fin (1 / 100)\<rparr>"

definition ex_state :: LIFState where
  "ex_state = \<lparr>z_s = ex_tensor [1, 2] [0, 0], v_s = ex_tensor [1, 2] [0, 0],
               i_s = ex_tensor [1, 2] [0, 0]\<rparr>"

definition ex_encoder :: LIFConstantCurrentEncoder where
  "ex_encoder = \<lparr>seq_length = 2, p_enc = ex_params, device_enc = CPU, dt_enc = Fin (1 / 100)\<rparr>"

section \<open>Properties of the tensor engine model\<close>

lemmas ex_defs = ex_params_def ex_tensor_def ex_cell_def ex_state_def ex_encoder_def

lemmas elem_defs = zero_elem_def one_elem_def minus_elem_def

lemmas engine_defs = torch_zeros_def tensor_map_def tensor_zip_def rows_def dot_def linear_def
  unbind0_def torch_stack_def setitem_ts_def promote_def broadcast_shapes_def
  broadcast_data_def result_device_def result_dtype_def and_then_def

lemmas functional_defs = heaviside_def param_scale_def param_zip_def lif_input_current_def
  lif_current_update_def lif_potential_update_def lif_spike_def lif_reset_def
  lif_integrate_def lif_spike_reset_def lif_step_def lif_feed_forward_step_def
  lif_current_encoder_def

lemma torch_zeros_ok:
  "sizes \<noteq> [] \<Longrightarrow> list_all (\<lambda>n. 0 \<le> n) sizes \<Longrightarrow>
   torch_zeros sizes dev dt =
     Inr \<lparr>shape = map nat sizes, data = replicate (prod_list (map nat sizes)) 0,
          device = dev, dtype = dt\<rparr>"
  by (auto simp: torch_zeros_def list_ex_iff list_all_iff)

lemma torch_zeros_negative:
  "list_ex (\<lambda>n. n < 0) sizes \<Longrightarrow> sizes \<noteq> [] \<Longrightarrow> torch_zeros sizes dev dt = Inl RuntimeError"
  by (auto simp: torch_zeros_def)

lemma torch_zeros_wf:
  "torch_zeros sizes dev dt = Inr t \<Longrightarrow> wf_tensor t"
  by (auto simp: torch_zeros_def wf_tensor_def split: if_splits)

lemma torch_zeros_of_shape:
  assumes "s \<noteq> []"
  shows "torch_zeros (map int s) dev dt =
           Inr \<lparr>shape = s, data = replicate (prod_list s) 0, device = dev, dtype = dt\<rparr>"
proof -
  have "\<not> list_ex (\<lambda>n. n < 0) (map int s)" by (simp add: list_ex_iff)
  moreover have "map nat (map int s) = s" by (simp add: map_idI)
  ultimately show ?thesis using assms by (simp add: torch_zeros_def)
qed

lemma torch_zeros_time_shape:
  assumes "0 \<le> n"
  shows "torch_zeros (n # map int s) dev dt =
           Inr \<lparr>shape = nat n # s, data = replicate (nat n * prod_list s) 0,
                device = dev, dtype = dt\<rparr>"
proof -
  have "\<not> list_ex (\<lambda>k. k < 0) (n # map int s)" using assms by (simp add: list_ex_iff)
  moreover have "map nat (map int s) = s" by (simp add: map_idI)
  ultimately show ?thesis by (simp add: torch_zeros_def)
qed

lemma broadcast_rev_same: "broadcast_rev xs xs = Some xs"
  by (induction xs) simp_all

lemma broadcast_shapes_same: "broadcast_shapes s s = Some s"
  by (simp add: broadcast_shapes_def broadcast_rev_same)

lemma promote_same: "promote dt dt = dt"
  by (simp add: promote_def)

text \<open>
  An element-wise operation on two tensors of one shape on one device: the elements
  are combined position by position.
\<close>

lemma tensor_zip_same_shape:
  assumes "shape a = shape b" and "device a = device b"
  shows "tensor_zip f a b =
           Inr \<lparr>shape = shape b, data = map2 f (data a) (data b), device = device b,
                dtype = promote (dtype a) (dtype b)\<rparr>"
  using assms
  by (simp add: tensor_zip_def broadcast_shapes_same broadcast_data_def result_device_def
      result_dtype_def)

section \<open>LIFCell.initial_state\<close>

lemma LIFCell_initial_state_negative:
  "batch_size < 0 \<or> hidden_size self < 0 \<Longrightarrow>
   LIFCell_initial_state self batch_size dev dt = Inl RuntimeError"
  by (auto simp: LIFCell_initial_state_def torch_zeros_def)

text \<open>
  Claim C2. For every batch size, device and dtype, \<^verbatim>\<open>initial_state\<close> returns a
  \<^verbatim>\<open>LIFState\<close> whose tensors \<^verbatim>\<open>z\<close>, \<^verbatim>\<open>v\<close> and \<^verbatim>\<open>i\<close> are zero-filled, of shape
  \<^verbatim>\<open>[batch_size, hidden_size]\<close>, on the given device and of the given dtype. The
  batch size \<open>b\<close> and the hidden size \<open>h\<close> of the cell are sizes, that is, natural
  numbers (a negative one makes the engine raise, \<open>LIFCell_initial_state_negative\<close>).
\<close>

theorem LIFCell_initial_state_zero:
  assumes "hidden_size self = int h"
  shows "LIFCell_initial_state self (int b) dev dt =
           Inr \<lparr>z_s = \<lparr>shape = [b, h], data = replicate (b * h) 0, device = dev, dtype = dt\<rparr>,
                v_s = \<lparr>shape = [b, h], data = replicate (b * h) 0, device = dev, dtype = dt\<rparr>,
                i_s = \<lparr>shape = [b, h], data = replicate (b * h) 0, device = dev, dtype = dt\<rparr>\<rparr>"
  using assms by (simp add: LIFCell_initial_state_def torch_zeros_def)

theorem LIFCell_initial_state_zero_witness:
  "LIFCell_initial_state ex_cell 3 (CUDA 0) Float64 =
   Inr \<lparr>z_s = \<lparr>shape = [3, 2], data = [0, 0, 0, 0, 0, 0], device = CUDA 0, dtype = Float64\<rparr>,
        v_s = \<lparr>shape = [3, 2], data = [0, 0, 0, 0, 0, 0], device = CUDA 0, dtype = Float64\<rparr>,
        i_s = \<lparr>shape = [3, 2], data = [0, 0, 0, 0, 0, 0], device = CUDA 0, dtype = Float64\<rparr>\<rparr>"
  using LIFCell_initial_state_zero [of ex_cell 2 3 "CUDA 0" Float64]
  by (simp add: ex_cell_def eval_nat_numeral)

section \<open>LIFLayer.forward\<close>

text \<open>
  The loop of the source, at index \<open>i\<close> with the outputs collected so far, does what
  the unrolling by hand does on the remaining inputs, and appends.
\<close>

lemma LIFLayer_loop_by_hand:
  "LIFLayer_loop call inputs i acc state self =
     (case cell_by_hand call (cell self) (drop i inputs) state of
        (Inl e, c1) \<Rightarrow> (Inl e, self\<lparr>cell := c1\<rparr>)
      | (Inr (outs, state1), c1) \<Rightarrow> (Inr (acc @ outs, state1), self\<lparr>cell := c1\<rparr>))"
proof (induction call inputs i acc state self rule: LIFLayer_loop.induct)
  case (1 call inputs i outputs state self)
  show ?case
  proof (cases "i < length inputs")
    case False
    then show ?thesis by (simp add: LIFLayer_loop.simps[of call inputs i])
  next
    case True
    then have d: "drop i inputs = inputs ! i # drop (Suc i) inputs"
      by (simp add: Cons_nth_drop_Suc)
    obtain r c1 where r: "call (cell self) (inputs ! i) state = (r, c1)"
      by (cases "call (cell self) (inputs ! i) state")
    show ?thesis
    proof (cases r)
      case (Inl e)
      with True r d show ?thesis
        by (simp add: LIFLayer_loop.simps[of call inputs i])
    next
      case (Inr os)
      obtain out state1 where os: "os = (out, state1)" by (cases os)
      have step: "LIFLayer_loop call inputs i outputs state self =
            LIFLayer_loop call inputs (Suc i) (outputs @ [out]) state1 (self\<lparr>cell := c1\<rparr>)"
        using True r Inr os by (subst LIFLayer_loop.simps) simp
      have ih: "LIFLayer_loop call inputs (Suc i) (outputs @ [out]) state1 (self\<lparr>cell := c1\<rparr>) =
         (case cell_by_hand call c1 (drop (Suc i) inputs) state1 of
            (Inl e, c2) \<Rightarrow> (Inl e, self\<lparr>cell := c2\<rparr>)
          | (Inr (outs, state2), c2) \<Rightarrow>
              (Inr ((outputs @ [out]) @ outs, state2), self\<lparr>cell := c2\<rparr>))"
        using "1.IH"[OF True r[symmetric] Inr os[symmetric]]
        by (simp split: prod.splits sum.splits)
      show ?thesis
        unfolding step ih d using r Inr os
        by (simp split: prod.splits sum.splits)
    qed
  qed
qed

text \<open>
  Claim C1. For every cell, initial state and input, \<^verbatim>\<open>LIFLayer.forward\<close> iterates
  the time steps in order, feeds each step the state the previous step returned (the
  first step the given state), and returns the stack of the per-step outputs in time
  order with the state of the last step: it is, step for step, the unrolling by hand
  of the owned cell (\<open>unrolled_by_hand\<close>), raises included; the cell the layer owns
  afterwards is the cell as the calls by hand leave it.
\<close>

theorem LIFLayer_forward_unrolls:
  "LIFLayer_forward call self input state =
     (case unrolled_by_hand call (cell self) input state of
        (r, c1) \<Rightarrow> (r, self\<lparr>cell := c1\<rparr>))"
  by (simp add: LIFLayer_forward_def unrolled_by_hand_def LIFLayer_loop_by_hand
      split: sum.splits prod.splits)

lemma ex_cell_step1:
  "LIFCell_forward ex_cell (ex_tensor [1, 1] [1]) ex_state =
     (Inr (ex_tensor [1, 2] [1, 0],
           \<lparr>z_s = ex_tensor [1, 2] [1, 0], v_s = ex_tensor [1, 2] [-1, 1/4],
            i_s = ex_tensor [1, 2] [3, 1/2]\<rparr>), ex_cell)"
  by (simp add: LIFCell_forward_def ex_defs engine_defs functional_defs elem_defs upt_rec)

lemma ex_cell_step2:
  "LIFCell_forward ex_cell (ex_tensor [1, 1] [1/2])
       \<lparr>z_s = ex_tensor [1, 2] [1, 0], v_s = ex_tensor [1, 2] [-1, 1/4],
        i_s = ex_tensor [1, 2] [3, 1/2]\<rparr> =
     (Inr (ex_tensor [1, 2] [1, 0],
           \<lparr>z_s = ex_tensor [1, 2] [1, 0], v_s = ex_tensor [1, 2] [-1, 1/2],
            i_s = ex_tensor [1, 2] [3, 3/4]\<rparr>), ex_cell)"
  by (simp add: LIFCell_forward_def ex_defs engine_defs functional_defs elem_defs upt_rec)

lemma ex_unbind:
  "unbind0 (ex_tensor [2, 1, 1] [1, 1/2]) = Inr [ex_tensor [1, 1] [1], ex_tensor [1, 1] [1/2]]"
  by (simp add: unbind0_def ex_tensor_def upt_rec)

lemma ex_by_hand:
  "unrolled_by_hand LIFCell_forward ex_cell (ex_tensor [2, 1, 1] [1, 1/2]) ex_state =
     (Inr (ex_tensor [2, 1, 2] [1, 0, 1, 0],
           \<lparr>z_s = ex_tensor [1, 2] [1, 0], v_s = ex_tensor [1, 2] [-1, 1/2],
            i_s = ex_tensor [1, 2] [3, 3/4]\<rparr>), ex_cell)"
proof -
  have stack: "torch_stack [ex_tensor [1, 2] [1, 0], ex_tensor [1, 2] [1, 0]] =
      Inr (ex_tensor [2, 1, 2] [1, 0, 1, 0])"
    by (simp add: torch_stack_def ex_tensor_def promote_def)
  show ?thesis
    by (simp only: unrolled_by_hand_def ex_unbind cell_by_hand.simps ex_cell_step1
        ex_cell_step2 stack prod.case sum.case)
qed

theorem LIFLayer_forward_unrolls_witness:
  "LIFLayer_forward LIFCell_forward \<lparr>cell = ex_cell\<rparr> (ex_tensor [2, 1, 1] [1, 1/2]) ex_state =
     (Inr (ex_tensor [2, 1, 2] [1, 0, 1, 0],
           \<lparr>z_s = ex_tensor [1, 2] [1, 0], v_s = ex_tensor [1, 2] [-1, 1/2],
            i_s = ex_tensor [1, 2] [3, 3/4]\<rparr>),
      \<lparr>cell = ex_cell\<rparr>)"
  using LIFLayer_forward_unrolls
    [of LIFCell_forward "\<lparr>cell = ex_cell\<rparr>" "ex_tensor [2, 1, 1] [1, 1/2]" ex_state]
    ex_by_hand
  by simp

text \<open>
  Claim C10. For every layer and state, \<^verbatim>\<open>forward\<close> on an input whose dimension 0
  has length 0 returns no pair: unbinding gives no slice, the loop ends at once with
  the empty output list and the state as given, the cell is not called, and stacking
  the empty list raises.
\<close>

theorem LIFLayer_forward_empty:
  assumes "shape input = 0 # rest"
  shows "unbind0 input = Inr [] \<and>
         LIFLayer_loop call [] 0 [] state self = (Inr ([], state), self) \<and>
         torch_stack [] = Inl RuntimeError \<and>
         LIFLayer_forward call self input state = (Inl RuntimeError, self)"
  using assms
  by (simp add: LIFLayer_forward_def unbind0_def LIFLayer_loop.simps torch_stack_def)

theorem LIFLayer_forward_empty_witness:
  "LIFLayer_forward LIFCell_forward \<lparr>cell = ex_cell\<rparr> (ex_tensor [0, 1, 1] []) ex_state =
     (Inl RuntimeError, \<lparr>cell = ex_cell\<rparr>)"
  using LIFLayer_forward_empty
    [of "ex_tensor [0, 1, 1] []" "[1, 1]" LIFCell_forward ex_state "\<lparr>cell = ex_cell\<rparr>"]
  by (simp add: ex_tensor_def)

section \<open>The reset of the LIF step\<close>

lemma elem_one_times: "1 * x = (x::elem)"
  by (cases x) (simp_all add: one_elem_def)

lemma elem_zero_plus: "0 + x = (x::elem)"
  by (cases x) (simp_all add: zero_elem_def)

lemma elem_plus_zero: "x + 0 = (x::elem)"
  by (cases x) (simp_all add: zero_elem_def)

lemma elem_zero_times_finite: "is_finite x \<Longrightarrow> 0 * x = (0::elem)"
  by (cases x) (simp_all add: zero_elem_def is_finite_def)

lemma elem_one_minus: "(1::elem) - 1 = 0" "(1::elem) - 0 = 1"
  by (simp_all add: elem_defs)

lemma heaviside_cases: "heaviside x = 1 \<or> heaviside x = 0"
  by (simp add: heaviside_def)

text \<open>
  What a returned element-wise operation holds, for two tensors of one shape and for
  a parameter that fits the tensor.
\<close>

lemma tensor_zip_Inr_same_shape:
  assumes "tensor_zip f a b = Inr c" and "shape a = shape b"
  shows "shape c = shape b \<and> data c = map2 f (data a) (data b)"
  using assms
  by (auto simp: tensor_zip_def broadcast_shapes_same broadcast_data_def
      split: sum.splits)

lemma param_zip_Inr:
  assumes "param_zip f prm t = Inr r" and "param_fits (shape t) prm"
  shows "shape r = shape t \<and> length (data r) \<le> length (data t) \<and>
         (\<forall>k<length (data r). data r ! k = f (param_at (shape t) prm k) (data t ! k))"
proof (cases prm)
  case (Scalar a)
  with assms show ?thesis
    by (auto simp: param_zip_def tensor_map_def param_at_def)
next
  case (Tens u)
  with assms have z: "tensor_zip f u t = Inr r"
    and b: "broadcast_shapes (shape u) (shape t) = Some (shape t)"
    by (simp_all add: param_zip_def param_fits_def)
  from z b have s: "shape r = shape t"
    and d: "data r = map2 f (broadcast_data (shape t) u) (data t)"
    by (auto simp: tensor_zip_def broadcast_data_def split: sum.splits)
  show ?thesis using s d Tens by (simp add: param_at_def)
qed

lemma lif_spike_Inr:
  assumes "lif_spike p v_new = Inr z" and "param_fits (shape v_new) (v_th p)"
  shows "shape z = shape v_new \<and> length (data z) \<le> length (data v_new) \<and>
         (\<forall>k<length (data z). data z ! k = 1 \<or> data z ! k = 0)"
proof -
  obtain d where d: "param_zip (\<lambda>th v. v - th) (v_th p) v_new = Inr d"
    and z: "z = tensor_map heaviside d"
    using assms(1) by (auto simp: lif_spike_def and_then_def split: sum.splits)
  from param_zip_Inr[OF d assms(2)] z show ?thesis
    by (simp add: tensor_map_def heaviside_cases)
qed

lemma lif_reset_Inr:
  assumes "lif_reset p z v_new = Inr v_out" and "shape z = shape v_new"
    and "param_fits (shape v_new) (v_reset p)"
  shows "shape v_out = shape v_new \<and> length (data v_out) \<le> length (data z) \<and>
         length (data v_out) \<le> length (data v_new) \<and>
         (\<forall>k<length (data v_out).
            data v_out ! k =
              (1 - data z ! k) * data v_new ! k + data z ! k * param_at (shape v_new) (v_reset p) k)"
proof -
  obtain a b where a: "tensor_zip (*) (tensor_map (\<lambda>z. 1 - z) z) v_new = Inr a"
    and b: "param_zip (\<lambda>r z. z * r) (v_reset p) z = Inr b"
    and c: "tensor_zip (+) a b = Inr v_out"
    using assms(1) by (auto simp: lif_reset_def and_then_def split: sum.splits)
  have sa: "shape a = shape v_new"
    and da: "data a = map2 (*) (map (\<lambda>z. 1 - z) (data z)) (data v_new)"
    using tensor_zip_Inr_same_shape[OF a] assms(2) by (simp_all add: tensor_map_def)
  have fit: "param_fits (shape z) (v_reset p)" using assms(2,3) by simp
  have sb: "shape b = shape z" and lb: "length (data b) \<le> length (data z)"
    and db: "\<forall>k<length (data b). data b ! k = data z ! k * param_at (shape z) (v_reset p) k"
    using param_zip_Inr[OF b fit] by simp_all
  have sc: "shape v_out = shape b" and dc: "data v_out = map2 (+) (data a) (data b)"
    using tensor_zip_Inr_same_shape[OF c] sa sb assms(2) by simp_all
  show ?thesis
    using sc sb assms(2) lb db unfolding dc da by auto
qed

text \<open>
  The spike and reset part, whenever it returns, for a threshold and a reset value
  that fit the potential.
\<close>

lemma lif_spike_reset_applied:
  assumes "lif_spike_reset p v_new = Inr (z, v_out)"
    and "param_fits (shape v_new) (v_th p)" and "param_fits (shape v_new) (v_reset p)"
  shows "reset_applied p v_new z v_out"
proof -
  have sp: "lif_spike p v_new = Inr z" and rs: "lif_reset p z v_new = Inr v_out"
    using assms(1) by (auto simp: lif_spike_reset_def and_then_def split: sum.splits)
  have sz: "shape z = shape v_new" and lz: "length (data z) \<le> length (data v_new)"
    and bz: "\<forall>k<length (data z). data z ! k = 1 \<or> data z ! k = 0"
    using lif_spike_Inr[OF sp assms(2)] by simp_all
  have so: "shape v_out = shape v_new" and lo: "length (data v_out) \<le> length (data z)"
    and lo2: "length (data v_out) \<le> length (data v_new)"
    and el: "\<forall>k<length (data v_out).
            data v_out ! k =
              (1 - data z ! k) * data v_new ! k + data z ! k * param_at (shape v_new) (v_reset p) k"
    using lif_reset_Inr[OF rs sz assms(3)] by simp_all
  have "(data z ! k = 1 \<or> data z ! k = 0) \<and>
        (data z ! k = 1 \<and> is_finite (data v_new ! k) \<longrightarrow>
           data v_out ! k = param_at (shape v_new) (v_reset p) k) \<and>
        (data z ! k = 0 \<and> is_finite (param_at (shape v_new) (v_reset p) k) \<longrightarrow>
           data v_out ! k = data v_new ! k)"
    if k: "k < length (data v_out)" for k
  proof -
    have kz: "k < length (data z)" using k lo by simp
    have e: "data v_out ! k =
        (1 - data z ! k) * data v_new ! k + data z ! k * param_at (shape v_new) (v_reset p) k"
      using el k by simp
    show ?thesis
      using bz kz unfolding e
      by (auto simp: elem_one_minus elem_one_times elem_zero_times_finite elem_zero_plus
          elem_plus_zero)
  qed
  then show ?thesis
    unfolding reset_applied_def using sz so lo lo2 by simp
qed

lemma lif_step_Inr:
  assumes "lif_step input state w_in w_rec p dt = Inr (out, state1)"
  shows "\<exists>i_new v_new. lif_integrate input state w_in w_rec p dt = Inr (i_new, v_new) \<and>
           lif_spike_reset p v_new = Inr (z_s state1, v_s state1) \<and>
           out = z_s state1 \<and> i_s state1 = i_new"
  using assms
  by (auto simp: lif_step_def and_then_def split: sum.splits prod.splits)

text \<open>
  Tensors of one form combine to a tensor of that form, and a parameter that is
  \<open>param_ok\<close> combines with them.
\<close>

lemma tensor_map_form: "has_form s dev dt a \<Longrightarrow> has_form s dev dt (tensor_map f a)"
  by (simp add: has_form_def tensor_map_def wf_tensor_def)

lemma tensor_zip_form:
  assumes "has_form s dev dt a" and "has_form s dev dt b"
  shows "\<exists>c. tensor_zip f a b = Inr c \<and> has_form s dev dt c"
  using assms
  by (simp add: has_form_def tensor_zip_def broadcast_shapes_same broadcast_data_def
      result_device_def result_dtype_def promote_same wf_tensor_def)

lemma broadcast_data_length:
  "wf_tensor t \<Longrightarrow> broadcast_shapes (shape t) s = Some s \<Longrightarrow>
   length (broadcast_data s t) = prod_list s"
  by (simp add: broadcast_data_def wf_tensor_def)

lemma broadcast_into_empty:
  assumes "broadcast_shapes u [] = Some []"
  shows "u = []"
proof (cases "rev u")
  case Nil
  then show ?thesis by simp
next
  case (Cons x xs)
  with assms show ?thesis by (simp add: broadcast_shapes_def)
qed

lemma param_zip_form:
  assumes "has_form s dev dt t" and "param_ok s dev dt prm"
  shows "\<exists>r. param_zip f prm t = Inr r \<and> has_form s dev dt r"
proof (cases prm)
  case (Scalar a)
  with assms(1) show ?thesis
    by (simp add: param_zip_def tensor_map_form)
next
  case (Tens u)
  with assms(2) have b: "broadcast_shapes (shape u) s = Some s" and w: "wf_tensor u"
    and d: "device u = dev \<or> (shape u = [] \<and> device u = CPU)"
    and y: "(shape u = [] \<and> s \<noteq> []) \<or> dtype u = dt"
    by (simp_all add: param_ok_def)
  have st: "shape t = s" and dt: "device t = dev" and yt: "dtype t = dt"
    and lt: "length (data t) = prod_list s"
    using assms(1) by (simp_all add: has_form_def wf_tensor_def)
  have rd: "result_device u t = Inr dev"
    using d dt by (auto simp: result_device_def)
  have ry: "result_dtype u t = dt"
  proof (cases "s = []")
    case True
    then have "shape u = []" using b broadcast_into_empty by simp
    with True y yt st show ?thesis by (simp add: result_dtype_def promote_same)
  next
    case False
    with y yt st show ?thesis by (auto simp: result_dtype_def promote_same)
  qed
  have lu: "length (broadcast_data s u) = prod_list s"
    using broadcast_data_length[OF w b] .
  show ?thesis
    using Tens b rd ry lu lt st
    by (simp add: param_zip_def tensor_zip_def has_form_def wf_tensor_def broadcast_data_def)
qed

lemma param_scale_ok: "param_ok s dev dt prm \<Longrightarrow> param_ok s dev dt (param_scale c prm)"
  by (cases prm) (simp_all add: param_ok_def param_scale_def tensor_map_def wf_tensor_def)

lemma param_ok_fits: "param_ok s dev dt prm \<Longrightarrow> param_fits s prm"
  by (cases prm) (simp_all add: param_ok_def param_fits_def)

lemma length_rows: "length (rows m n xs) = m"
  by (simp add: rows_def)

lemma linear_form:
  assumes "has_form [b, n] dev dt x" and "has_form [h, n] dev dt w"
  shows "\<exists>r. linear x w = Inr r \<and> has_form [b, h] dev dt r"
proof -
  have "length (concat (map (\<lambda>r. map (dot r) (rows h n (data w))) (rows b n (data x)))) = b * h"
    by (simp add: length_concat comp_def length_rows sum_list_triv)
  then show ?thesis using assms
    by (simp add: has_form_def linear_def wf_tensor_def)
qed

text \<open>
  One LIF step on a batch of \<open>b\<close> inputs of size \<open>n\<close>, with weights of shape
  \<open>[h, n]\<close> and \<open>[h, h]\<close> and a state of shape \<open>[b, h]\<close>, all on one device and of one
  dtype: every part returns.
\<close>

lemma lif_input_current_form:
  assumes "has_form [b, n] dev dt input" and "has_form [b, h] dev dt z_old"
    and "has_form [h, n] dev dt w_in" and "has_form [h, h] dev dt w_rec"
  shows "\<exists>c. lif_input_current input z_old w_in w_rec = Inr c \<and> has_form [b, h] dev dt c"
proof -
  obtain a where a: "linear input w_in = Inr a" and fa: "has_form [b, h] dev dt a"
    using linear_form[OF assms(1,3)] by auto
  obtain r where r: "linear z_old w_rec = Inr r" and fr: "has_form [b, h] dev dt r"
    using linear_form[OF assms(2,4)] by auto
  show ?thesis using a r tensor_zip_form[OF fa fr, of "(+)"]
    by (simp add: lif_input_current_def and_then_def)
qed

lemma lif_current_update_form:
  assumes "has_form s dev dt i_old" and "has_form s dev dt c"
    and "param_ok s dev dt (tau_syn_inv p)"
  shows "\<exists>r. lif_current_update p step i_old c = Inr r \<and> has_form s dev dt r"
proof -
  obtain a where a: "tensor_zip (+) (tensor_map uminus i_old) c = Inr a"
    and fa: "has_form s dev dt a"
    using tensor_zip_form[OF tensor_map_form[OF assms(1)] assms(2)] by auto
  obtain m where m: "param_zip (*) (param_scale step (tau_syn_inv p)) a = Inr m"
    and fm: "has_form s dev dt m"
    using param_zip_form[OF fa param_scale_ok[OF assms(3)]] by auto
  show ?thesis using a m tensor_zip_form[OF assms(1) fm, of "(+)"]
    by (simp add: lif_current_update_def and_then_def)
qed

lemma lif_potential_update_form:
  assumes "has_form s dev dt v_old" and "has_form s dev dt c"
    and "param_ok s dev dt (tau_mem_inv p)" and "param_ok s dev dt (v_leak p)"
  shows "\<exists>r. lif_potential_update p step v_old c = Inr r \<and> has_form s dev dt r"
proof -
  obtain a where a: "param_zip (-) (v_leak p) v_old = Inr a" and fa: "has_form s dev dt a"
    using param_zip_form[OF assms(1,4)] by auto
  obtain e where e: "tensor_zip (+) a c = Inr e" and fe: "has_form s dev dt e"
    using tensor_zip_form[OF fa assms(2)] by auto
  obtain m where m: "param_zip (*) (param_scale step (tau_mem_inv p)) e = Inr m"
    and fm: "has_form s dev dt m"
    using param_zip_form[OF fe param_scale_ok[OF assms(3)]] by auto
  show ?thesis using a e m tensor_zip_form[OF assms(1) fm, of "(+)"]
    by (simp add: lif_potential_update_def and_then_def)
qed

lemma lif_spike_reset_form:
  assumes "has_form s dev dt v_new"
    and "param_ok s dev dt (v_th p)" and "param_ok s dev dt (v_reset p)"
  shows "\<exists>z v_out. lif_spike_reset p v_new = Inr (z, v_out) \<and>
           has_form s dev dt z \<and> has_form s dev dt v_out"
proof -
  obtain d where d: "param_zip (\<lambda>th v. v - th) (v_th p) v_new = Inr d"
    and fd: "has_form s dev dt d"
    using param_zip_form[OF assms(1,2)] by auto
  have fz: "has_form s dev dt (tensor_map heaviside d)" using fd by (rule tensor_map_form)
  obtain a where a: "tensor_zip (*) (tensor_map (\<lambda>z. 1 - z) (tensor_map heaviside d)) v_new = Inr a"
    and fa: "has_form s dev dt a"
    using tensor_zip_form[OF tensor_map_form[OF fz] assms(1)] by auto
  obtain r where r: "param_zip (\<lambda>r z. z * r) (v_reset p) (tensor_map heaviside d) = Inr r"
    and fr: "has_form s dev dt r"
    using param_zip_form[OF fz assms(3)] by auto
  obtain c where c: "tensor_zip (+) a r = Inr c" and fc: "has_form s dev dt c"
    using tensor_zip_form[OF fa fr] by auto
  show ?thesis using d a r c fz fc
    by (simp add: lif_spike_reset_def lif_spike_def lif_reset_def and_then_def)
qed

lemma lif_step_returns:
  assumes "has_form [b, n] dev dt input"
    and "has_form [h, n] dev dt w_in" and "has_form [h, h] dev dt w_rec"
    and "state_has_form [b, h] dev dt state" and "params_ok [b, h] dev dt p"
  shows "\<exists>out state1 i_new v_new.
           lif_step input state w_in w_rec p step = Inr (out, state1) \<and>
           lif_integrate input state w_in w_rec p step = Inr (i_new, v_new) \<and>
           shape v_new = [b, h] \<and>
           has_form [b, h] dev dt out \<and> state_has_form [b, h] dev dt state1"
proof -
  have fz: "has_form [b, h] dev dt (z_s state)" and fv: "has_form [b, h] dev dt (v_s state)"
    and fi: "has_form [b, h] dev dt (i_s state)"
    using assms(4) by (simp_all add: state_has_form_def)
  have p1: "param_ok [b, h] dev dt (tau_syn_inv p)" and p2: "param_ok [b, h] dev dt (tau_mem_inv p)"
    and p3: "param_ok [b, h] dev dt (v_leak p)" and p4: "param_ok [b, h] dev dt (v_th p)"
    and p5: "param_ok [b, h] dev dt (v_reset p)"
    using assms(5) by (simp_all add: params_ok_def)
  obtain c where c: "lif_input_current input (z_s state) w_in w_rec = Inr c"
    and fc: "has_form [b, h] dev dt c"
    using lif_input_current_form[OF assms(1) fz assms(2,3)] by auto
  obtain i_new where i: "lif_current_update p step (i_s state) c = Inr i_new"
    and fin: "has_form [b, h] dev dt i_new"
    using lif_current_update_form[OF fi fc p1] by auto
  obtain v_new where v: "lif_potential_update p step (v_s state) i_new = Inr v_new"
    and fvn: "has_form [b, h] dev dt v_new"
    using lif_potential_update_form[OF fv fin p2 p3] by auto
  obtain z v_out where sr: "lif_spike_reset p v_new = Inr (z, v_out)"
    and fzn: "has_form [b, h] dev dt z" and fvo: "has_form [b, h] dev dt v_out"
    using lif_spike_reset_form[OF fvn p4 p5] by auto
  have int: "lif_integrate input state w_in w_rec p step = Inr (i_new, v_new)"
    using c i v by (simp add: lif_integrate_def and_then_def)
  have "lif_step input state w_in w_rec p step =
          Inr (z, \<lparr>z_s = z, v_s = v_out, i_s = i_new\<rparr>)"
    using int sr by (simp add: lif_step_def and_then_def)
  then show ?thesis using int fzn fvo fin fvn
    by (simp add: state_has_form_def has_form_def)
qed

text \<open>
  An infinite potential before the reset, and an infinite reset value: the formula of
  step 5 multiplies the infinity by 0, which is NaN.
\<close>

lemma reset_of_infinite_potential:
  "(1 - heaviside (PInf - Fin th)) * PInf + heaviside (PInf - Fin th) * Fin r = NaN"
  by (simp add: heaviside_def elem_defs)

lemma reset_to_infinite_value:
  "a < th \<Longrightarrow>
   (1 - heaviside (Fin a - Fin th)) * Fin a + heaviside (Fin a - Fin th) * PInf = NaN"
  by (simp add: heaviside_def elem_defs)

text \<open>
  Claim C4, as stated: in the state returned by one LIF step, every neuron whose new
  spike value is 1 has the potential \<open>v_reset\<close> exactly, regardless of the value
  computed before the reset. It fails at an infinite input: both neurons of the
  example cell get the potential \<open>+infinity\<close> before the reset and spike, and their
  potential in the returned state is NaN, not the reset value \<open>-1\<close>.
\<close>

theorem lif_step_reset_counterexample:
  "LIFCell_forward ex_cell \<lparr>shape = [1, 1], data = [PInf], device = CPU, dtype = Float32\<rparr>
       ex_state =
     (Inr (ex_tensor [1, 2] [1, 1],
           \<lparr>z_s = ex_tensor [1, 2] [1, 1],
            v_s = \<lparr>shape = [1, 2], data = [NaN, NaN], device = CPU, dtype = Float32\<rparr>,
            i_s = \<lparr>shape = [1, 2], data = [PInf, PInf], device = CPU, dtype = Float32\<rparr>\<rparr>),
      ex_cell) \<and>
   lif_integrate \<lparr>shape = [1, 1], data = [PInf], device = CPU, dtype = Float32\<rparr> ex_state
       (input_weights ex_cell) (recurrent_weights ex_cell) (p_cell ex_cell) (dt_cell ex_cell) =
     Inr (\<lparr>shape = [1, 2], data = [PInf, PInf], device = CPU, dtype = Float32\<rparr>,
          \<lparr>shape = [1, 2], data = [PInf, PInf], device = CPU, dtype = Float32\<rparr>) \<and>
   v_reset (p_cell ex_cell) = Scalar (Fin (-1)) \<and> NaN \<noteq> Fin (-1)"
  by (simp add: LIFCell_forward_def ex_defs engine_defs functional_defs elem_defs upt_rec)

text \<open>
  Claim C4, amended. For every input and prior state, in the state that one LIF step
  returns, and hence in the state that \<^verbatim>\<open>LIFCell.forward\<close> returns, with a threshold
  and a reset value that are numeric scalars or per-neuron tensors: every neuron
  whose new spike value is 1 and whose potential \<open>v_new\<close> computed before the reset
  is finite has the potential \<open>v_reset\<close> exactly, and every neuron whose new spike
  value is 0 keeps the computed \<open>v_new\<close>, for a finite \<open>v_reset\<close> (\<open>reset_applied\<close>);
  the output of the step is the new spike tensor. On a batch of inputs with weights,
  state and parameters of matching shapes on one device and of one dtype,
  \<^verbatim>\<open>LIFCell.forward\<close> returns such a state.
\<close>

theorem lif_step_reset:
  "(lif_step input state w_in w_rec p dt = Inr (out, state1) \<longrightarrow>
      (\<exists>i_new v_new. lif_integrate input state w_in w_rec p dt = Inr (i_new, v_new) \<and>
         out = z_s state1 \<and>
         (param_fits (shape v_new) (v_th p) \<and> param_fits (shape v_new) (v_reset p) \<longrightarrow>
            reset_applied p v_new (z_s state1) (v_s state1)))) \<and>
   (has_form [b, n] dev dty input \<and> has_form [h, n] dev dty (input_weights self) \<and>
    has_form [h, h] dev dty (recurrent_weights self) \<and>
    state_has_form [b, h] dev dty state \<and> params_ok [b, h] dev dty (p_cell self) \<longrightarrow>
      (\<exists>z_new state2 i_new v_new.
         LIFCell_forward self input state = (Inr (z_new, state2), self) \<and>
         lif_integrate input state (input_weights self) (recurrent_weights self)
           (p_cell self) (dt_cell self) = Inr (i_new, v_new) \<and>
         z_new = z_s state2 \<and> state_has_form [b, h] dev dty state2 \<and>
         reset_applied (p_cell self) v_new (z_s state2) (v_s state2)))"
proof (intro conjI impI)
  assume s: "lif_step input state w_in w_rec p dt = Inr (out, state1)"
  obtain i_new v_new where
    int: "lif_integrate input state w_in w_rec p dt = Inr (i_new, v_new)"
    and sr: "lif_spike_reset p v_new = Inr (z_s state1, v_s state1)"
    and o: "out = z_s state1"
    using lif_step_Inr[OF s] by auto
  show "\<exists>i_new v_new. lif_integrate input state w_in w_rec p dt = Inr (i_new, v_new) \<and>
         out = z_s state1 \<and>
         (param_fits (shape v_new) (v_th p) \<and> param_fits (shape v_new) (v_reset p) \<longrightarrow>
            reset_applied p v_new (z_s state1) (v_s state1))"
    using int o lif_spike_reset_applied[OF sr] by auto
next
  assume a: "has_form [b, n] dev dty input \<and> has_form [h, n] dev dty (input_weights self) \<and>
    has_form [h, h] dev dty (recurrent_weights self) \<and>
    state_has_form [b, h] dev dty state \<and> params_ok [b, h] dev dty (p_cell self)"
  obtain z_new state2 i_new v_new where
    s: "lif_step input state (input_weights self) (recurrent_weights self)
          (p_cell self) (dt_cell self) = Inr (z_new, state2)"
    and int: "lif_integrate input state (input_weights self) (recurrent_weights self)
          (p_cell self) (dt_cell self) = Inr (i_new, v_new)"
    and sv: "shape v_new = [b, h]" and fs: "state_has_form [b, h] dev dty state2"
    using lif_step_returns[of b n dev dty input h "input_weights self" "recurrent_weights self"
        state "p_cell self" "dt_cell self"] a
    by auto
  obtain i2 v2 where
    int2: "lif_integrate input state (input_weights self) (recurrent_weights self)
          (p_cell self) (dt_cell self) = Inr (i2, v2)"
    and sr: "lif_spike_reset (p_cell self) v2 = Inr (z_s state2, v_s state2)"
    and o: "z_new = z_s state2"
    using lif_step_Inr[OF s] by auto
  have v2: "v2 = v_new" using int int2 by simp
  have f1: "param_fits (shape v_new) (v_th (p_cell self))"
    and f2: "param_fits (shape v_new) (v_reset (p_cell self))"
    using a sv by (auto simp: params_ok_def intro: param_ok_fits)
  have "reset_applied (p_cell self) v_new (z_s state2) (v_s state2)"
    using lif_spike_reset_applied[OF sr[unfolded v2] f1 f2] .
  then show "\<exists>z_new state2 i_new v_new.
         LIFCell_forward self input state = (Inr (z_new, state2), self) \<and>
         lif_integrate input state (input_weights self) (recurrent_weights self)
           (p_cell self) (dt_cell self) = Inr (i_new, v_new) \<and>
         z_new = z_s state2 \<and> state_has_form [b, h] dev dty state2 \<and>
         reset_applied (p_cell self) v_new (z_s state2) (v_s state2)"
    using s int o fs by (auto simp: LIFCell_forward_def)
qed

lemma ex_cell_has_form:
  "has_form [1, 1] CPU Float32 (ex_tensor [1, 1] [1]) \<and>
   has_form [2, 1] CPU Float32 (input_weights ex_cell) \<and>
   has_form [2, 2] CPU Float32 (recurrent_weights ex_cell) \<and>
   state_has_form [1, 2] CPU Float32 ex_state \<and>
   params_ok [1, 2] CPU Float32 (p_cell ex_cell)"
  by (simp add: has_form_def state_has_form_def params_ok_def param_ok_def wf_tensor_def ex_defs)

lemma ex_cell_integrate:
  "lif_integrate (ex_tensor [1, 1] [1]) ex_state (input_weights ex_cell)
       (recurrent_weights ex_cell) (p_cell ex_cell) (dt_cell ex_cell) =
     Inr (ex_tensor [1, 2] [3, 1/2], ex_tensor [1, 2] [3/2, 1/4])"
  by (simp add: ex_defs engine_defs functional_defs elem_defs upt_rec)

theorem lif_step_reset_witness:
  "LIFCell_forward ex_cell (ex_tensor [1, 1] [1]) ex_state =
     (Inr (ex_tensor [1, 2] [1, 0],
           \<lparr>z_s = ex_tensor [1, 2] [1, 0], v_s = ex_tensor [1, 2] [-1, 1/4],
            i_s = ex_tensor [1, 2] [3, 1/2]\<rparr>), ex_cell) \<and>
   lif_integrate (ex_tensor [1, 1] [1]) ex_state (input_weights ex_cell)
       (recurrent_weights ex_cell) (p_cell ex_cell) (dt_cell ex_cell) =
     Inr (ex_tensor [1, 2] [3, 1/2], ex_tensor [1, 2] [3/2, 1/4]) \<and>
   reset_applied (p_cell ex_cell) (ex_tensor [1, 2] [3/2, 1/4])
     (ex_tensor [1, 2] [1, 0]) (ex_tensor [1, 2] [-1, 1/4])"
  using lif_step_reset[of "ex_tensor [1, 1] [1]" ex_state "input_weights ex_cell"
      "recurrent_weights ex_cell" "p_cell ex_cell" "dt_cell ex_cell" "ex_tensor [1, 2] [1, 0]"
      "\<lparr>z_s = ex_tensor [1, 2] [1, 0], v_s = ex_tensor [1, 2] [-1, 1/4],
        i_s = ex_tensor [1, 2] [3, 1/2]\<rparr>" 1 1 CPU Float32 2 ex_cell]
    ex_cell_has_form ex_cell_step1 ex_cell_integrate
  by simp

text \<open>
  A layer over a \<^verbatim>\<open>LIFCell\<close> returns: on an input of shape \<open>[t, b, n]\<close> with at
  least one time step, weights of shape \<open>[h, n]\<close> and \<open>[h, h]\<close>, a state of shape
  \<open>[b, h]\<close> and parameters that combine with it, all on one device and of one dtype,
  every step returns, the outputs stack, and the result has shape \<open>[t, b, h]\<close> with a
  state of the form it started from.
\<close>

lemma cell_by_hand_LIFCell_returns:
  assumes "list_all (has_form [b, n] dev dt) xs"
    and "has_form [h, n] dev dt (input_weights c)"
    and "has_form [h, h] dev dt (recurrent_weights c)"
    and "params_ok [b, h] dev dt (p_cell c)"
    and "state_has_form [b, h] dev dt state"
  shows "\<exists>outs state1. cell_by_hand LIFCell_forward c xs state = (Inr (outs, state1), c) \<and>
           length outs = length xs \<and> list_all (has_form [b, h] dev dt) outs \<and>
           state_has_form [b, h] dev dt state1"
  using assms
proof (induction xs arbitrary: state)
  case Nil
  then show ?case by simp
next
  case (Cons x xs)
  obtain out state1 where
    step: "lif_step x state (input_weights c) (recurrent_weights c) (p_cell c) (dt_cell c) =
             Inr (out, state1)"
    and fo: "has_form [b, h] dev dt out" and fs: "state_has_form [b, h] dev dt state1"
    using lif_step_returns[of b n dev dt x h "input_weights c" "recurrent_weights c" state
        "p_cell c" "dt_cell c"] Cons.prems
    by auto
  obtain outs state2 where
    rest: "cell_by_hand LIFCell_forward c xs state1 = (Inr (outs, state2), c)"
    and lo: "length outs = length xs" and fos: "list_all (has_form [b, h] dev dt) outs"
    and fs2: "state_has_form [b, h] dev dt state2"
    using Cons.IH[of state1] Cons.prems fs by auto
  have call: "LIFCell_forward c x state = (Inr (out, state1), c)"
    using step by (simp add: LIFCell_forward_def)
  show ?case using call rest lo fo fos fs2 by simp
qed

lemma unbind0_has_form:
  assumes "has_form (t # s) dev dt input"
  shows "\<exists>xs. unbind0 input = Inr xs \<and> length xs = t \<and> list_all (has_form s dev dt) xs"
proof -
  have len: "length (data input) = t * prod_list s" and sh: "shape input = t # s"
    using assms by (simp_all add: has_form_def wf_tensor_def)
  have "length (take (prod_list s) (drop (k * prod_list s) (data input))) = prod_list s"
    if "k < t" for k
  proof -
    have "Suc k * prod_list s \<le> t * prod_list s" using that by (intro mult_le_mono1) simp
    then have "prod_list s \<le> t * prod_list s - k * prod_list s" by simp
    then show ?thesis using len by (simp add: min_absorb2)
  qed
  then show ?thesis using assms
    by (auto simp: has_form_def unbind0_def list_all_iff wf_tensor_def)
qed

lemma foldl_promote_same: "list_all (\<lambda>d. d = dt) ds \<Longrightarrow> foldl promote dt ds = dt"
  by (induction ds) (simp_all add: promote_same)

lemma length_concat_same:
  "list_all (\<lambda>t. length (data t) = m) ts \<Longrightarrow> length (concat (map data ts)) = length ts * m"
  by (induction ts) simp_all

lemma torch_stack_has_form:
  assumes "outs \<noteq> []" and "list_all (has_form s dev dt) outs"
  shows "\<exists>y. torch_stack outs = Inr y \<and> has_form (length outs # s) dev dt y"
proof -
  obtain t rest where o: "outs = t # rest" using assms(1) by (cases outs) auto
  have "list_all (\<lambda>d. d = dt) (map dtype rest)"
    using assms(2) o by (auto simp: list_all_iff has_form_def)
  then have p: "foldl promote (dtype t) (map dtype rest) = dt"
    using assms(2) o foldl_promote_same[of dt "map dtype rest"] by (simp add: has_form_def)
  have "list_all (\<lambda>t. length (data t) = prod_list s) outs"
    using assms(2) by (auto simp: list_all_iff has_form_def wf_tensor_def)
  then have l: "length (concat (map data outs)) = length outs * prod_list s"
    by (rule length_concat_same)
  show ?thesis using assms(2) o p l
    by (auto simp: torch_stack_def has_form_def list_all_iff wf_tensor_def)
qed

lemma LIFLayer_LIFCell_returns:
  assumes "has_form [t, b, n] dev dt input" and "0 < t"
    and "has_form [h, n] dev dt (input_weights (cell self))"
    and "has_form [h, h] dev dt (recurrent_weights (cell self))"
    and "params_ok [b, h] dev dt (p_cell (cell self))"
    and "state_has_form [b, h] dev dt state"
  shows "\<exists>stacked state1.
           LIFLayer_forward LIFCell_forward self input state = (Inr (stacked, state1), self) \<and>
           has_form [t, b, h] dev dt stacked \<and> state_has_form [b, h] dev dt state1"
proof -
  obtain xs where u: "unbind0 input = Inr xs" and lx: "length xs = t"
    and fx: "list_all (has_form [b, n] dev dt) xs"
    using unbind0_has_form[OF assms(1)] by auto
  obtain outs state1 where
    run: "cell_by_hand LIFCell_forward (cell self) xs state = (Inr (outs, state1), cell self)"
    and lo: "length outs = length xs" and fo: "list_all (has_form [b, h] dev dt) outs"
    and fs: "state_has_form [b, h] dev dt state1"
    using cell_by_hand_LIFCell_returns[OF fx assms(3,4,5,6)] by auto
  have "outs \<noteq> []" using lo lx assms(2) by auto
  then obtain y where st: "torch_stack outs = Inr y"
    and fy: "has_form (length outs # [b, h]) dev dt y"
    using torch_stack_has_form[OF _ fo] by auto
  show ?thesis
    using u run st fy fs lo lx
    by (simp add: LIFLayer_forward_def LIFLayer_loop_by_hand)
qed

text \<open>
  Two runs of the example cell in which tensors of different shapes meet: a reset
  value per neuron with a threshold given as a tensor without dimensions, and a batch
  of two inputs on a state for a batch of one, which the engine broadcasts.
\<close>

lemma ex_cell_per_neuron_reset:
  "fst (LIFCell_forward
          (ex_cell\<lparr>p_cell := ex_params\<lparr>v_th := Tens (ex_tensor [] [1]),
                                         v_reset := Tens (ex_tensor [2] [-1, -2])\<rparr>\<rparr>)
          (ex_tensor [1, 1] [1]) ex_state) =
     Inr (ex_tensor [1, 2] [1, 0],
          \<lparr>z_s = ex_tensor [1, 2] [1, 0], v_s = ex_tensor [1, 2] [-1, 1/4],
           i_s = ex_tensor [1, 2] [3, 1/2]\<rparr>)"
  by (simp add: LIFCell_forward_def ex_defs engine_defs functional_defs elem_defs upt_rec)

lemma ex_cell_broadcast_batch:
  "fst (LIFCell_forward ex_cell (ex_tensor [2, 1] [1, 1/2]) ex_state) =
     Inr (ex_tensor [2, 2] [1, 0, 0, 0],
          \<lparr>z_s = ex_tensor [2, 2] [1, 0, 0, 0], v_s = ex_tensor [2, 2] [-1, 1/4, 3/4, 1/8],
           i_s = ex_tensor [2, 2] [3, 1/2, 3/2, 1/4]\<rparr>)"
  by (simp add: LIFCell_forward_def ex_defs engine_defs functional_defs elem_defs upt_rec)

section \<open>LIFCell construction\<close>

lemma LIFCell_init_negative:
  "input_size < 0 \<or> hidden_sz < 0 \<Longrightarrow>
   LIFCell_init input_size hidden_sz p dt g = (Inl RuntimeError, g)"
  by (auto simp: LIFCell_init_def torch_randn_def)

text \<open>
  Claim C7. At construction of a \<^verbatim>\<open>LIFCell\<close> with input size \<open>n\<close> and hidden size
  \<open>h\<close>, each weight matrix is a tensor of standard-normal draws of the generator,
  scaled by 1 over the square root of its fan-in: \<^verbatim>\<open>input_weights\<close> has shape
  \<open>[h, n]\<close> and holds the first \<open>h * n\<close> draws times \<open>1 / sqrt n\<close>;
  \<^verbatim>\<open>recurrent_weights\<close> has shape \<open>[h, h]\<close> and holds the next \<open>h * h\<close> draws times
  \<open>1 / sqrt h\<close>.
\<close>

theorem LIFCell_init_weights:
  "LIFCell_init (int n) (int h) p dt g =
     (Inr \<lparr>input_weights =
             \<lparr>shape = [h, n],
              data = map (\<lambda>k. Fin (g k * (1 / sqrt (real n)))) [0..<h * n],
              device = CPU, dtype = Float32\<rparr>,
           recurrent_weights =
             \<lparr>shape = [h, h],
              data = map (\<lambda>k. Fin (g (h * n + k) * (1 / sqrt (real h)))) [0..<h * h],
              device = CPU, dtype = Float32\<rparr>,
           hidden_size = int h, p_cell = p, dt_cell = dt\<rparr>,
      (\<lambda>k. g (h * n + h * h + k)))"
proof -
  have iw: "map (\<lambda>x. x / Fin (sqrt (real n))) (map (\<lambda>k. Fin (g k)) [0..<h * n]) =
            map (\<lambda>k. Fin (g k * (1 / sqrt (real n)))) [0..<h * n]"
    by (cases "n = 0") simp_all
  have rw: "map (\<lambda>x. x / Fin (sqrt (real h)))
              (map (\<lambda>k. Fin (g (k + h * n))) [0..<h * h]) =
            map (\<lambda>k. Fin (g (h * n + k) * (1 / sqrt (real h)))) [0..<h * h]"
    by (cases "h = 0") (simp_all add: add.commute)
  show ?thesis
    using iw rw
    by (simp add: LIFCell_init_def torch_randn_def tensor_map_def add.commute add.left_commute)
qed

theorem LIFCell_init_weights_witness:
  "fst (LIFCell_init 4 1 ex_params (Fin (1 / 1000)) (\<lambda>k. real k)) =
     Inr \<lparr>input_weights = ex_tensor [1, 4] [0, 1/2, 1, 3/2],
          recurrent_weights = ex_tensor [1, 1] [4],
          hidden_size = 1, p_cell = ex_params, dt_cell = Fin (1 / 1000)\<rparr>"
  using LIFCell_init_weights[of 4 1 ex_params "Fin (1 / 1000)" "\<lambda>k. real k"]
  by (simp add: ex_tensor_def upt_rec)

section \<open>LIFFeedForwardCell\<close>

text \<open>
  Claim C8. A \<^verbatim>\<open>LIFFeedForwardCell\<close> owns no trainable parameters, and for every
  batch size \<open>b\<close>, device and dtype its \<^verbatim>\<open>initial_state\<close> returns a zero-filled
  \<^verbatim>\<open>LIFFeedForwardState\<close> whose tensors \<^verbatim>\<open>v\<close> and \<^verbatim>\<open>i\<close> have the shape
  \<open>b # s\<close>, where \<open>s\<close> is the feature shape given at construction; neither weights
  nor a hidden size enter.
\<close>

theorem LIFFeedForwardCell_initial_state_zero:
  assumes "shape_ff self = map int s"
  shows "LIFFeedForwardCell_parameters self = [] \<and>
         LIFFeedForwardCell_initial_state self (int b) dev dt =
           Inr \<lparr>v_ffs = \<lparr>shape = b # s, data = replicate (b * prod_list s) 0,
                           device = dev, dtype = dt\<rparr>,
                i_ffs = \<lparr>shape = b # s, data = replicate (b * prod_list s) 0,
                           device = dev, dtype = dt\<rparr>\<rparr>"
  using assms torch_zeros_time_shape[of "int b" s dev dt]
  by (simp add: LIFFeedForwardCell_parameters_def LIFFeedForwardCell_initial_state_def)

theorem LIFFeedForwardCell_initial_state_zero_witness:
  "LIFFeedForwardCell_initial_state (LIFFeedForwardCell_init [2, 1] ex_params (Fin (1 / 1000)))
       2 (CUDA 1) Float16 =
     Inr \<lparr>v_ffs = \<lparr>shape = [2, 2, 1], data = [0, 0, 0, 0], device = CUDA 1, dtype = Float16\<rparr>,
          i_ffs = \<lparr>shape = [2, 2, 1], data = [0, 0, 0, 0], device = CUDA 1, dtype = Float16\<rparr>\<rparr>"
  using LIFFeedForwardCell_initial_state_zero
    [of "LIFFeedForwardCell_init [2, 1] ex_params (Fin (1 / 1000))" "[2, 1]" 2 "CUDA 1" Float16]
  by (simp add: LIFFeedForwardCell_init_def eval_nat_numeral)

section \<open>The forward calls leave the modules as they were\<close>

lemma cell_by_hand_frame:
  "(\<And>c x s. snd (call c x s) = c) \<Longrightarrow> snd (cell_by_hand call c xs state) = c"
proof (induction xs arbitrary: state)
  case Nil
  show ?case by simp
next
  case (Cons x xs)
  obtain r c1 where r: "call c x state = (r, c1)" by (cases "call c x state")
  have c1: "c1 = c" using Cons.prems[of c x state] r by simp
  show ?case
  proof (cases r)
    case (Inl e)
    with r c1 show ?thesis by simp
  next
    case (Inr os)
    obtain out state1 where os: "os = (out, state1)" by (cases os)
    have "snd (cell_by_hand call c xs state1) = c" using Cons.IH Cons.prems by blast
    then show ?thesis using r c1 Inr os
      by (auto split: prod.splits sum.splits)
  qed
qed

lemma LIFLayer_forward_frame:
  assumes "\<And>c x s. snd (call c x s) = c"
  shows "snd (LIFLayer_forward call self input state) = self"
proof (cases "unbind0 input")
  case (Inl e)
  then show ?thesis by (simp add: LIFLayer_forward_def)
next
  case (Inr inputs)
  have "snd (cell_by_hand call (cell self) inputs state) = cell self"
    using assms by (rule cell_by_hand_frame)
  then show ?thesis using Inr
    by (auto simp: LIFLayer_forward_def LIFLayer_loop_by_hand split: prod.splits sum.splits)
qed

lemma encoder_loop_frame:
  "snd (encoder_loop self x ts z_cur v_cur voltages spikes) = self"
proof (induction self x ts z_cur v_cur voltages spikes rule: encoder_loop.induct)
  case (1 self x ts z_cur v_cur voltages spikes)
  show ?case
    apply (subst encoder_loop.simps)
    using "1.IH" by (auto split: sum.splits prod.splits)
qed

lemma LIFConstantCurrentEncoder_forward_frame:
  "snd (LIFConstantCurrentEncoder_forward self x) = self"
  by (simp add: LIFConstantCurrentEncoder_forward_def encoder_loop_frame split: sum.splits)

text \<open>
  Claim C9. No \<^verbatim>\<open>forward\<close> call of \<^verbatim>\<open>LIFCell\<close>, \<^verbatim>\<open>LIFFeedForwardCell\<close>,
  \<^verbatim>\<open>LIFLayer\<close> or \<^verbatim>\<open>LIFConstantCurrentEncoder\<close> changes a field of the module it
  is called on: the module after the call, whether the call returns or raises, is
  the module before it, with its weights, its parameter record \<open>p\<close>, \<open>dt\<close>, and its
  hidden size, shape or sequence length. A layer is left as it was by every cell
  whose own \<^verbatim>\<open>forward\<close> leaves the cell as it was, as the two cells of the module do.
\<close>

theorem forward_frame:
  "snd (LIFCell_forward lif input state) = lif \<and>
   snd (LIFFeedForwardCell_forward ff ff_input ff_state) = ff \<and>
   ((\<forall>c x s. snd (call c x s) = c) \<longrightarrow>
      snd (LIFLayer_forward call layer inputs any_state) = layer) \<and>
   snd (LIFLayer_forward LIFCell_forward lif_layer inputs state) = lif_layer \<and>
   snd (LIFLayer_forward LIFFeedForwardCell_forward ff_layer inputs ff_state) = ff_layer \<and>
   snd (LIFConstantCurrentEncoder_forward enc current) = enc"
proof (intro conjI impI)
  show "snd (LIFCell_forward lif input state) = lif"
    by (simp add: LIFCell_forward_def)
  show "snd (LIFFeedForwardCell_forward ff ff_input ff_state) = ff"
    by (simp add: LIFFeedForwardCell_forward_def)
  show "snd (LIFLayer_forward call layer inputs any_state) = layer"
    if "\<forall>c x s. snd (call c x s) = c"
    using that by (intro LIFLayer_forward_frame) simp
  show "snd (LIFLayer_forward LIFCell_forward lif_layer inputs state) = lif_layer"
    by (intro LIFLayer_forward_frame) (simp add: LIFCell_forward_def)
  show "snd (LIFLayer_forward LIFFeedForwardCell_forward ff_layer inputs ff_state) = ff_layer"
    by (intro LIFLayer_forward_frame) (simp add: LIFFeedForwardCell_forward_def)
  show "snd (LIFConstantCurrentEncoder_forward enc current) = enc"
    by (rule LIFConstantCurrentEncoder_forward_frame)
qed

theorem forward_frame_witness:
  "snd (LIFLayer_forward LIFCell_forward \<lparr>cell = ex_cell\<rparr> (ex_tensor [2, 1, 1] [1, 1/2]) ex_state)
     = \<lparr>cell = ex_cell\<rparr> \<and>
   snd (LIFCell_forward ex_cell (ex_tensor [1, 1] [1]) ex_state) = ex_cell \<and>
   snd (LIFConstantCurrentEncoder_forward ex_encoder (ex_tensor [1, 2] [3/2, 1/2])) = ex_encoder"
proof -
  have pure: "\<forall>c x s. snd (LIFCell_forward c x s) = c"
    by (simp add: LIFCell_forward_def)
  from forward_frame[of ex_cell "ex_tensor [1, 1] [1]" ex_state
      "LIFFeedForwardCell_init [1] ex_params (Fin (1 / 100))" "ex_tensor [1, 1] [1]"
      "\<lparr>v_ffs = ex_tensor [1, 1] [0], i_ffs = ex_tensor [1, 1] [0]\<rparr>"
      LIFCell_forward "\<lparr>cell = ex_cell\<rparr>" "ex_tensor [2, 1, 1] [1, 1/2]" ex_state
      "\<lparr>cell = ex_cell\<rparr>"
      "\<lparr>cell = LIFFeedForwardCell_init [1] ex_params (Fin (1 / 100))\<rparr>"
      ex_encoder "ex_tensor [1, 2] [3/2, 1/2]"] pure
  show ?thesis by simp
qed

section \<open>LIFConstantCurrentEncoder.forward\<close>

text \<open>
  \<^verbatim>\<open>forward\<close> allocates its buffers for an input of any shape, with the time
  dimension in front, and writes them with \<^verbatim>\<open>voltages[ts, :, :] = v\<close> and
  \<^verbatim>\<open>spikes[ts, :, :] = z\<close>, an integer index and two slices. On an input with fewer
  than two dimensions and at least one time step the call raises, whatever the
  parameters and the devices are: a buffer with two dimensions has too many indices at
  the first assignment, and no buffer is allocated for an input without dimensions.
\<close>

lemma encoder_low_rank_raises:
  assumes "length (shape x) < 2" and "0 < seq_length self"
  shows "\<exists>e. LIFConstantCurrentEncoder_forward self x = (Inl e, self)"
proof (cases "shape x")
  case Nil
  then show ?thesis
    by (simp add: LIFConstantCurrentEncoder_forward_def torch_zeros_def)
next
  case (Cons n rest)
  then have s: "shape x = [n]" using assms(1) by simp
  have z: "torch_zeros (map int (shape x)) (device_enc self) Float32 =
      Inr \<lparr>shape = [n], data = replicate n 0, device = device_enc self, dtype = Float32\<rparr>"
    using torch_zeros_of_shape[of "shape x" "device_enc self" Float32] s by simp
  have b: "torch_zeros (seq_length self # map int (shape x)) (device_enc self) Float32 =
      Inr \<lparr>shape = [nat (seq_length self), n], data = replicate (nat (seq_length self) * n) 0,
           device = device_enc self, dtype = Float32\<rparr>"
    using torch_zeros_time_shape[of "seq_length self" "shape x" "device_enc self" Float32]
      assms(2) s by simp
  show ?thesis
    unfolding LIFConstantCurrentEncoder_forward_def z b
    using assms(2)
    by (simp add: encoder_loop.simps[of self x 0] setitem_ts_def split: sum.splits)
qed

text \<open>
  Without a time step the loop does not run, and the input with one dimension gets
  its empty traces.
\<close>

lemma encoder_rank1_no_steps:
  assumes "shape x = [n]" and "seq_length self = 0"
  shows "LIFConstantCurrentEncoder_forward self x =
     (Inr (\<lparr>shape = [0, n], data = [], device = device_enc self, dtype = Float32\<rparr>,
           \<lparr>shape = [0, n], data = [], device = device_enc self, dtype = Float32\<rparr>), self)"
  using assms
  by (simp add: LIFConstantCurrentEncoder_forward_def torch_zeros_def
      encoder_loop.simps[of self x 0])

text \<open>
  On an input with two dimensions the call returns the traces: two steps of the
  example encoder on one row of two neurons.
\<close>

lemma encoder_rank2_example:
  "LIFConstantCurrentEncoder_forward ex_encoder (ex_tensor [1, 2] [3/2, 1/2]) =
     (Inr (ex_tensor [2, 1, 2] [3/4, 1/4, -1, 3/8], ex_tensor [2, 1, 2] [0, 0, 1, 0]),
      ex_encoder)"
  by (simp add: LIFConstantCurrentEncoder_forward_def encoder_loop.simps ex_defs engine_defs
      functional_defs elem_defs eval_nat_numeral)

text \<open>
  Claim C5 says that for every input \<open>x\<close> of arbitrary shape \<open>S\<close> and every sequence
  length \<open>N\<close>, \<^verbatim>\<open>forward\<close> returns voltages and spikes of shape \<open>[N, *S]\<close>. The code at
  the input of shape \<open>[3]\<close> with \<open>N = 2\<close>: the call raises an IndexError and returns no
  tensors of shape \<open>[2, 3]\<close>.
\<close>

theorem encoder_rank1_input_raises:
  "LIFConstantCurrentEncoder_forward ex_encoder (ex_tensor [3] [1, 2, 3]) =
     (Inl IndexError, ex_encoder) \<and>
   \<not> (\<exists>voltages spikes.
         fst (LIFConstantCurrentEncoder_forward ex_encoder (ex_tensor [3] [1, 2, 3])) =
           Inr (voltages, spikes) \<and>
         shape voltages = [2, 3] \<and> shape spikes = [2, 3])"
proof -
  have "LIFConstantCurrentEncoder_forward ex_encoder (ex_tensor [3] [1, 2, 3]) =
     (Inl IndexError, ex_encoder)"
    by (simp add: LIFConstantCurrentEncoder_forward_def encoder_loop.simps ex_defs engine_defs
        functional_defs elem_defs)
  then show ?thesis by simp
qed

text \<open>
  Claim C6 says that for every input \<open>x\<close>, \<^verbatim>\<open>forward\<close> applies the encoder step
  \<^verbatim>\<open>seq_length\<close> times from the zero potential and records the \<open>(v_t, z_t)\<close> of step
  \<open>t\<close> at time index \<open>t\<close> of the traces it returns. The code at the input of shape
  \<open>[2]\<close> with one time step: the step from the zero potential is computed, recording
  it raises an IndexError, and no trace is returned.
\<close>

theorem encoder_rank1_no_trace:
  "lif_current_encoder (ex_tensor [2] [3, 1/2]) (ex_tensor [2] [0, 0]) ex_params (Fin (1 / 100)) =
     Inr (ex_tensor [2] [1, 0], ex_tensor [2] [-1, 1/4]) \<and>
   LIFConstantCurrentEncoder_forward (ex_encoder\<lparr>seq_length := 1\<rparr>) (ex_tensor [2] [3, 1/2]) =
     (Inl IndexError, ex_encoder\<lparr>seq_length := 1\<rparr>) \<and>
   \<not> (\<exists>voltages spikes.
         fst (LIFConstantCurrentEncoder_forward (ex_encoder\<lparr>seq_length := 1\<rparr>)
                (ex_tensor [2] [3, 1/2])) = Inr (voltages, spikes))"
proof -
  have step: "lif_current_encoder (ex_tensor [2] [3, 1/2]) (ex_tensor [2] [0, 0]) ex_params
      (Fin (1 / 100)) = Inr (ex_tensor [2] [1, 0], ex_tensor [2] [-1, 1/4])"
    by (simp add: ex_defs engine_defs functional_defs elem_defs)
  have "LIFConstantCurrentEncoder_forward (ex_encoder\<lparr>seq_length := 1\<rparr>) (ex_tensor [2] [3, 1/2]) =
     (Inl IndexError, ex_encoder\<lparr>seq_length := 1\<rparr>)"
    by (simp add: LIFConstantCurrentEncoder_forward_def encoder_loop.simps ex_defs engine_defs
        functional_defs elem_defs)
  then show ?thesis using step by simp
qed

end
